theory Spec2Isabelle
  imports Main "HOL-Library.AList"
begin


section \<open>Python values\<close>

text \<open>
  The two implementations (\<^verbatim>\<open>api-python/main.py\<close>, the minimal variant, and
  \<^verbatim>\<open>api-python-profesional\<close>, the professional variant) keep their records as plain
  Python dictionaries obtained from \<^verbatim>\<open>json.load\<close>. A value is therefore one of the
  JSON shapes, or a \<^verbatim>\<open>datetime\<close> object (the only non-JSON object the code ever puts
  into a dictionary: pydantic parses the two timestamp fields of \<^verbatim>\<open>Song\<close> into
  \<^verbatim>\<open>datetime\<close>, and \<^verbatim>\<open>Song.dict()\<close> returns them as such).

  Scope of the value model: JSON numbers with a fraction or an exponent (Python floats)
  are not represented; a string is a list of characters, one \<^typ>\<open>char\<close> per code point,
  so only code points below 256 are represented and \<^const>\<open>length\<close> is Python's
  \<^verbatim>\<open>len\<close>. A dictionary is an association list read with \<^const>\<open>map_of\<close>; a
  \<^verbatim>\<open>datetime\<close> is represented by its ISO text.
\<close>

datatype pyval =
    PNone
  | PBool bool
  | PInt int
  | PStr string
  | PList "pyval list"
  | PDict "(string \<times> pyval) list"
  | PDatetime string

type_synonym pydict = "(string \<times> pyval) list"

text \<open>\<^verbatim>\<open>d.get(k)\<close>, \<^verbatim>\<open>d[k] = v\<close>, \<^verbatim>\<open>d.pop(k, None)\<close> and \<^verbatim>\<open>d.update(e)\<close> / \<^verbatim>\<open>{**d, **e}\<close>.\<close>

definition dget :: "pydict \<Rightarrow> string \<Rightarrow> pyval option" where
  "dget d k = map_of d k"

definition dset :: "pydict \<Rightarrow> string \<Rightarrow> pyval \<Rightarrow> pydict" where
  "dset d k v = AList.update k v d"

definition dpop :: "pydict \<Rightarrow> string \<Rightarrow> pydict" where
  "dpop d k = AList.delete k d"

definition dupdate :: "pydict \<Rightarrow> pydict \<Rightarrow> pydict" where
  "dupdate d e = fold (\<lambda>kv acc. dset acc (fst kv) (snd kv)) e d"

text \<open>
  \<^verbatim>\<open>json.dump(v, f)\<close> without a \<^verbatim>\<open>default=\<close> hook raises \<^verbatim>\<open>TypeError\<close> ("Object of
  type datetime is not JSON serializable") exactly when a \<^verbatim>\<open>datetime\<close> occurs in
  \<^verbatim>\<open>v\<close>; every other value of the model is serializable.
\<close>

fun json_ok :: "pyval \<Rightarrow> bool" where
  "json_ok (PDatetime s) = False"
| "json_ok (PList xs) = list_all json_ok xs"
| "json_ok (PDict kvs) = list_all (\<lambda>kv. json_ok (snd kv)) kvs"
| "json_ok v = True"

text \<open>
  \<^verbatim>\<open>len(v)\<close> and iteration \<^verbatim>\<open>for x in v\<close>: defined on lists, strings (its characters)
  and dictionaries (its keys); \<^verbatim>\<open>TypeError\<close> (\<^const>\<open>None\<close>) on the other values.
\<close>

definition py_len :: "pyval \<Rightarrow> nat option" where
  "py_len v = (case v of PList xs \<Rightarrow> Some (length xs) | PStr s \<Rightarrow> Some (length s)
               | PDict d \<Rightarrow> Some (length d) | _ \<Rightarrow> None)"

definition py_iter :: "pyval \<Rightarrow> pyval list option" where
  "py_iter v = (case v of PList xs \<Rightarrow> Some xs | PStr s \<Rightarrow> Some (map (\<lambda>c. PStr [c]) s)
                | PDict d \<Rightarrow> Some (map (\<lambda>kv. PStr (fst kv)) d) | _ \<Rightarrow> None)"

text \<open>
  \<^verbatim>\<open>song.get(key, default)\<close> on an element of the songs list: only a dictionary has
  \<^verbatim>\<open>get\<close>; on any other element Python raises \<^verbatim>\<open>AttributeError\<close> (\<^const>\<open>None\<close>).
\<close>

definition elem_get :: "pyval \<Rightarrow> string \<Rightarrow> pyval \<Rightarrow> pyval option" where
  "elem_get e k dflt =
     (case e of PDict d \<Rightarrow> Some (case dget d k of None \<Rightarrow> dflt | Some v \<Rightarrow> v) | _ \<Rightarrow> None)"

text \<open>
  The integer a value stands for in \<^verbatim>\<open>==\<close>, \<^verbatim>\<open>max\<close> and \<^verbatim>\<open>+\<close>: \<^verbatim>\<open>bool\<close> is a
  subclass of \<^verbatim>\<open>int\<close> (\<^verbatim>\<open>True == 1\<close>, \<^verbatim>\<open>isinstance(True, int)\<close>); no other value of
  the model equals an integer.
\<close>

definition as_int :: "pyval \<Rightarrow> int option" where
  "as_int v = (case v of PInt n \<Rightarrow> Some n | PBool b \<Rightarrow> Some (if b then 1 else 0) | _ \<Rightarrow> None)"

definition py_eq_int :: "pyval \<Rightarrow> int \<Rightarrow> bool" where
  "py_eq_int v i = (as_int v = Some i)"

text \<open>
  \<^verbatim>\<open>max(ids, default=0) + 1\<close>. On integers it is the greatest one plus one. When some
  element is not an integer, either a comparison inside \<^verbatim>\<open>max\<close> or the final \<^verbatim>\<open>+ 1\<close>
  raises \<^verbatim>\<open>TypeError\<close> (\<^const>\<open>None\<close>).
\<close>

definition max_plus_one :: "pyval list \<Rightarrow> int option" where
  "max_plus_one ids =
     (case those (map as_int ids) of
        None \<Rightarrow> None
      | Some [] \<Rightarrow> Some (0 + 1)
      | Some (n # ns) \<Rightarrow> Some (fold max ns n + 1))"

text \<open>\<^verbatim>\<open>xs[a:b]\<close> for \<^verbatim>\<open>0 <= a <= b\<close>, the only way the code slices.\<close>

definition py_slice :: "'a list \<Rightarrow> int \<Rightarrow> int \<Rightarrow> 'a list" where
  "py_slice xs a b = take (nat (b - a)) (drop (nat a) xs)"

text \<open>
  \<^verbatim>\<open>str.strip()\<close>: the whitespace code points below 256 are 9--13, 28--32, 133 and 160.
\<close>

definition py_isspace :: "char \<Rightarrow> bool" where
  "py_isspace c = ((of_char c :: nat) \<in> {9, 10, 11, 12, 13, 28, 29, 30, 31, 32, 133, 160})"

definition strip :: "string \<Rightarrow> string" where
  "strip s = rev (dropWhile py_isspace (rev (dropWhile py_isspace s)))"

text \<open>\<^verbatim>\<open>str(n)\<close> for an integer: its decimal digits.\<close>

function str_nat :: "nat \<Rightarrow> string" where
  "str_nat n = (if n < 10 then [char_of (48 + n)]
                else str_nat (n div 10) @ [char_of (48 + n mod 10)])"
  by pat_completeness auto
termination
  by (relation "measure id") auto

definition str_int :: "int \<Rightarrow> string" where
  "str_int i = (if i < 0 then CHR ''-'' # str_nat (nat (- i)) else str_nat (nat i))"

text \<open>The field name \<^verbatim>\<open>a\<ntilde>o\<close> (code points 97, 241, 111).\<close>

definition anio_key :: string where
  "anio_key = [CHR ''a'', CHR 0xF1, CHR ''o'']"


section \<open>models/song.py: the pydantic models\<close>

text \<open>
  The models are pydantic (version 1) classes. What pydantic does with them is library
  behaviour, modelled here as far as the declarations of \<^verbatim>\<open>models/song.py\<close> fix it:
  \<^item> a field is validated only when the input supplies it; an absent optional field takes
    its default \<^verbatim>\<open>None\<close>; an absent required field is the error "field required";
  \<^item> \<^verbatim>\<open>None\<close> for a required field is an error; for an \<^verbatim>\<open>Optional\<close> field it is kept,
    after the class validators (here \<^verbatim>\<open>strip_whitespace\<close>, which returns it unchanged);
  \<^item> the validators of the field's type run first (\<^verbatim>\<open>str_validator\<close> or
    \<^verbatim>\<open>int_validator\<close>, then the \<^verbatim>\<open>min_length\<close>/\<^verbatim>\<open>max_length\<close> or \<^verbatim>\<open>ge\<close>/\<^verbatim>\<open>le\<close>
    constraint of \<^verbatim>\<open>Field\<close>); the class validators declared with \<^verbatim>\<open>@validator\<close> and no
    \<^verbatim>\<open>pre=True\<close> run after them, in the order of their declaration, and only if the type's
    validators raised nothing;
  \<^item> each field reports at most one error; the errors of all fields are collected in the
    order of the fields; keys that name no field are ignored;
  \<^item> a \<^verbatim>\<open>@root_validator\<close> runs after the fields, also when a field failed, on the values
    of the fields that passed.

  Three things the declarations do not fix are parameters of the model, collected in
  \<^verbatim>\<open>pylib\<close>: what \<^verbatim>\<open>int(s)\<close> returns for a string, which inputs pydantic's datetime
  parser accepts (and the ISO text of the result), and the year of the clock when the
  module is imported (\<^verbatim>\<open>le=datetime.now().year\<close>). \<^verbatim>\<open>settings.APP_VERSION\<close> is a
  parameter too.
\<close>

record pylib =
  int_of_str :: "string \<Rightarrow> int option"
  parse_datetime :: "pyval \<Rightarrow> string option"
  current_year :: int
  app_version :: string

datatype verr =
    Missing string
  | NoneNotAllowed string
  | TypeErr string
  | MinLength string
  | MaxLength string
  | EmptyAfterStrip string
  | NotGe string
  | NotLe string
  | NoFieldProvided

text \<open>\<^verbatim>\<open>str_validator\<close>: a \<^verbatim>\<open>str\<close> as it is, an \<^verbatim>\<open>int\<close> (so also a \<^verbatim>\<open>bool\<close>) through \<^verbatim>\<open>str()\<close>.\<close>

definition str_validator :: "pyval \<Rightarrow> string option" where
  "str_validator v =
     (case v of
        PStr s \<Rightarrow> Some s
      | PInt n \<Rightarrow> Some (str_int n)
      | PBool b \<Rightarrow> Some (if b then ''True'' else ''False'')
      | _ \<Rightarrow> None)"

text \<open>\<^verbatim>\<open>int_validator\<close>: an \<^verbatim>\<open>int\<close> as it is, anything else through \<^verbatim>\<open>int()\<close>.\<close>

definition int_validator :: "pylib \<Rightarrow> pyval \<Rightarrow> int option" where
  "int_validator L v =
     (case v of
        PInt n \<Rightarrow> Some n
      | PBool b \<Rightarrow> Some (if b then 1 else 0)
      | PStr s \<Rightarrow> int_of_str L s
      | _ \<Rightarrow> None)"

text \<open>A \<^verbatim>\<open>datetime\<close> field: a \<^verbatim>\<open>datetime\<close> as it is, strings and numbers through the parser.\<close>

definition datetime_validator :: "pylib \<Rightarrow> pyval \<Rightarrow> string option" where
  "datetime_validator L v =
     (case v of
        PDatetime t \<Rightarrow> Some t
      | PStr s \<Rightarrow> parse_datetime L v
      | PInt n \<Rightarrow> parse_datetime L v
      | PBool b \<Rightarrow> parse_datetime L v
      | _ \<Rightarrow> None)"

text \<open>\<^verbatim>\<open>Field(min_length=mn, max_length=mx)\<close> on a \<^verbatim>\<open>str\<close>: the length of the value as given.\<close>

definition constr_validate :: "string \<Rightarrow> nat \<Rightarrow> nat \<Rightarrow> pyval \<Rightarrow> verr + string" where
  "constr_validate f mn mx v =
     (case str_validator v of
        None \<Rightarrow> Inl (TypeErr f)
      | Some s \<Rightarrow>
          if length s < mn then Inl (MinLength f)
          else if length s > mx then Inl (MaxLength f)
          else Inr s)"

text \<open>\<^verbatim>\<open>Field(ge=1800, le=datetime.now().year)\<close> on an \<^verbatim>\<open>int\<close>.\<close>

definition conint_validate :: "pylib \<Rightarrow> string \<Rightarrow> pyval \<Rightarrow> verr + int" where
  "conint_validate L f v =
     (case int_validator L v of
        None \<Rightarrow> Inl (TypeErr f)
      | Some n \<Rightarrow>
          if \<not> n \<ge> 1800 then Inl (NotGe f)
          else if \<not> n \<le> current_year L then Inl (NotLe f)
          else Inr n)"

text \<open>The two class validators of \<^verbatim>\<open>SongBase\<close> (lines 42--54).\<close>

definition strip_whitespace :: "string \<Rightarrow> string" where
  "strip_whitespace v = strip v"

definition no_empty_after_strip :: "string \<Rightarrow> string \<Rightarrow> verr + string" where
  "no_empty_after_strip f v = (if v = [] then Inl (EmptyAfterStrip f) else Inr v)"

text \<open>
  A required \<^verbatim>\<open>str\<close> field of \<^verbatim>\<open>SongBase\<close> (\<^verbatim>\<open>titulo\<close>, \<^verbatim>\<open>artista\<close>): the length
  constraint, then \<^verbatim>\<open>strip_whitespace\<close>, then \<^verbatim>\<open>no_empty_after_strip\<close>.
\<close>

definition base_str_field :: "string \<Rightarrow> nat \<Rightarrow> nat \<Rightarrow> pydict \<Rightarrow> verr + string" where
  "base_str_field f mn mx d =
     (case dget d f of
        None \<Rightarrow> Inl (Missing f)
      | Some PNone \<Rightarrow> Inl (NoneNotAllowed f)
      | Some v \<Rightarrow>
          (case constr_validate f mn mx v of
             Inl e \<Rightarrow> Inl e
           | Inr s \<Rightarrow> no_empty_after_strip f (strip_whitespace s)))"

text \<open>\<^verbatim>\<open>album: Optional[str] = Field(None, max_length=200)\<close>, with no class validator.\<close>

definition album_field :: "pydict \<Rightarrow> verr + string option" where
  "album_field d =
     (case dget d ''album'' of
        None \<Rightarrow> Inr None
      | Some PNone \<Rightarrow> Inr None
      | Some v \<Rightarrow>
          (case constr_validate ''album'' 0 200 v of Inl e \<Rightarrow> Inl e | Inr s \<Rightarrow> Inr (Some s)))"

definition anio_field :: "pylib \<Rightarrow> pydict \<Rightarrow> verr + int option" where
  "anio_field L d =
     (case dget d anio_key of
        None \<Rightarrow> Inr None
      | Some PNone \<Rightarrow> Inr None
      | Some v \<Rightarrow>
          (case conint_validate L anio_key v of Inl e \<Rightarrow> Inl e | Inr n \<Rightarrow> Inr (Some n)))"

definition errs :: "verr + 'a \<Rightarrow> verr list" where
  "errs r = (case r of Inl e \<Rightarrow> [e] | Inr x \<Rightarrow> [])"

record SongBase =
  titulo :: string
  artista :: string
  album :: "string option"
  anio :: "int option"

text \<open>\<^verbatim>\<open>SongCreate(**payload)\<close>; \<^verbatim>\<open>SongCreate\<close> adds nothing to \<^verbatim>\<open>SongBase\<close>.\<close>

definition SongCreate :: "pylib \<Rightarrow> pydict \<Rightarrow> verr list + SongBase" where
  "SongCreate L d =
     (let t = base_str_field ''titulo'' 1 200 d;
          a = base_str_field ''artista'' 1 100 d;
          al = album_field d;
          y = anio_field L d;
          es = errs t @ errs a @ errs al @ errs y
      in if es = [] then Inr \<lparr>titulo = projr t, artista = projr a, album = projr al, anio = projr y\<rparr>
         else Inl es)"

text \<open>\<^verbatim>\<open>song_data.dict()\<close> of a \<^verbatim>\<open>SongCreate\<close>.\<close>

definition opt_str :: "string option \<Rightarrow> pyval" where
  "opt_str v = (case v of None \<Rightarrow> PNone | Some s \<Rightarrow> PStr s)"

definition opt_int :: "int option \<Rightarrow> pyval" where
  "opt_int v = (case v of None \<Rightarrow> PNone | Some n \<Rightarrow> PInt n)"

definition SongBase_dict :: "'a SongBase_scheme \<Rightarrow> pydict" where
  "SongBase_dict b =
     [(''titulo'', PStr (titulo b)), (''artista'', PStr (artista b)),
      (''album'', opt_str (album b)), (anio_key, opt_int (anio b))]"

text \<open>
  \<^verbatim>\<open>SongUpdate\<close> (lines 65--106): every field optional; the only class validator is
  \<^verbatim>\<open>strip_whitespace\<close> (there is no \<^verbatim>\<open>no_empty_after_strip\<close> here); the root validator
  \<^verbatim>\<open>at_least_one_field\<close> wants one of the four values to be not \<^verbatim>\<open>None\<close>.
  \<^verbatim>\<open>fields_set\<close> are the fields the input supplied, which is what
  \<^verbatim>\<open>dict(exclude_unset=True)\<close> returns.
\<close>

definition update_str_field :: "string \<Rightarrow> nat \<Rightarrow> nat \<Rightarrow> pydict \<Rightarrow> verr + string option" where
  "update_str_field f mn mx d =
     (case dget d f of
        None \<Rightarrow> Inr None
      | Some PNone \<Rightarrow> Inr None
      | Some v \<Rightarrow>
          (case constr_validate f mn mx v of
             Inl e \<Rightarrow> Inl e
           | Inr s \<Rightarrow> Inr (Some (strip_whitespace s))))"

record SongUpdate =
  u_titulo :: "string option"
  u_artista :: "string option"
  u_album :: "string option"
  u_anio :: "int option"
  fields_set :: "string list"

definition value_or_none :: "verr + 'a option \<Rightarrow> 'a option" where
  "value_or_none r = (case r of Inl e \<Rightarrow> None | Inr v \<Rightarrow> v)"

definition at_least_one_field ::
  "string option \<Rightarrow> string option \<Rightarrow> string option \<Rightarrow> int option \<Rightarrow> verr list" where
  "at_least_one_field t a al y =
     (if \<not> (t \<noteq> None \<or> a \<noteq> None \<or> al \<noteq> None \<or> y \<noteq> None) then [NoFieldProvided] else [])"

definition SongUpdate :: "pylib \<Rightarrow> pydict \<Rightarrow> verr list + SongUpdate" where
  "SongUpdate L d =
     (let t = update_str_field ''titulo'' 1 200 d;
          a = update_str_field ''artista'' 1 100 d;
          al = album_field d;
          y = anio_field L d;
          es = errs t @ errs a @ errs al @ errs y
               @ at_least_one_field (value_or_none t) (value_or_none a) (value_or_none al)
                   (value_or_none y)
      in if es = []
         then Inr \<lparr>u_titulo = value_or_none t, u_artista = value_or_none a,
                   u_album = value_or_none al, u_anio = value_or_none y,
                   fields_set = filter (\<lambda>f. dget d f \<noteq> None)
                                  [''titulo'', ''artista'', ''album'', anio_key]\<rparr>
         else Inl es)"

definition SongUpdate_dict_exclude_unset :: "SongUpdate \<Rightarrow> pydict" where
  "SongUpdate_dict_exclude_unset u =
     filter (\<lambda>kv. fst kv \<in> set (fields_set u))
       [(''titulo'', opt_str (u_titulo u)), (''artista'', opt_str (u_artista u)),
        (''album'', opt_str (u_album u)), (anio_key, opt_int (u_anio u))]"

text \<open>
  \<^verbatim>\<open>Song\<close> (lines 109--116): the fields of \<^verbatim>\<open>SongBase\<close> with its validators, then
  \<^verbatim>\<open>id\<close>, \<^verbatim>\<open>uuid\<close>, \<^verbatim>\<open>created_at\<close> and \<^verbatim>\<open>updated_at\<close>, all required.
\<close>

record Song = SongBase +
  song_id :: int
  uuid :: string
  created_at :: string
  updated_at :: string

definition required_field :: "string \<Rightarrow> (pyval \<Rightarrow> 'a option) \<Rightarrow> pydict \<Rightarrow> verr + 'a" where
  "required_field f validator d =
     (case dget d f of
        None \<Rightarrow> Inl (Missing f)
      | Some PNone \<Rightarrow> Inl (NoneNotAllowed f)
      | Some v \<Rightarrow> (case validator v of None \<Rightarrow> Inl (TypeErr f) | Some x \<Rightarrow> Inr x))"

definition Song :: "pylib \<Rightarrow> pydict \<Rightarrow> verr list + Song" where
  "Song L d =
     (let t = base_str_field ''titulo'' 1 200 d;
          a = base_str_field ''artista'' 1 100 d;
          al = album_field d;
          y = anio_field L d;
          i = required_field ''id'' (int_validator L) d;
          u = required_field ''uuid'' str_validator d;
          c = required_field ''created_at'' (datetime_validator L) d;
          m = required_field ''updated_at'' (datetime_validator L) d;
          es = errs t @ errs a @ errs al @ errs y @ errs i @ errs u @ errs c @ errs m
      in if es = []
         then Inr \<lparr>titulo = projr t, artista = projr a, album = projr al, anio = projr y,
                   song_id = projr i, uuid = projr u, created_at = projr c, updated_at = projr m\<rparr>
         else Inl es)"

text \<open>
  \<^verbatim>\<open>song.dict()\<close>: the fields in the order of their declaration, as Python objects; the two
  timestamps are \<^verbatim>\<open>datetime\<close> objects (\<^verbatim>\<open>json_encoders\<close> only acts in \<^verbatim>\<open>.json()\<close>).
\<close>

definition Song_dict :: "Song \<Rightarrow> pydict" where
  "Song_dict g =
     SongBase_dict g @
     [(''id'', PInt (song_id g)), (''uuid'', PStr (uuid g)),
      (''created_at'', PDatetime (created_at g)), (''updated_at'', PDatetime (updated_at g))]"


section \<open>The backing file\<close>

text \<open>
  The state of the file system, as far as the two programs read and write it: the
  database file is absent, holds text that is not JSON, or holds the JSON value it parses
  to; the backup copy likewise. Whether a write can be carried out is the environment's
  choice: \<open>writable\<close> says that files of the database's directory can be created,
  written in full and renamed; \<open>backup_writable\<close> the same for the backup path. Failing
  reads of an existing file (permissions) are not modelled, and neither is the temporary
  file of the professional variant, which is written and never read: what a failed
  \<^verbatim>\<open>json.dump\<close> leaves in it has no effect on the database file.
\<close>

datatype file_content = Absent | Corrupt | Json pyval

record fs =
  db :: file_content
  backup :: file_content
  writable :: bool
  backup_writable :: bool

datatype error = DatabaseReadError | DatabaseWriteError | SongNotFoundError


section \<open>services/database.py: the professional variant\<close>

text \<open>
  A method \<^verbatim>\<open>m\<close> of \<^verbatim>\<open>DatabaseService\<close> (the instance \<^verbatim>\<open>db_service\<close>) becomes the
  function \<open>db_m\<close> from the state of the file system to its result (\<^const>\<open>Inl\<close> the
  exception it raises) and the new state; the functions of the minimal variant keep their
  names. \<open>now\<close> is the text
  \<^verbatim>\<open>datetime.now().isoformat()\<close> returns; one call of a method reads the clock several
  times, and the model gives all its readings the same value.
\<close>

definition db_get_metadata :: "pylib \<Rightarrow> string \<Rightarrow> pyval" where
  "db_get_metadata L now =
     PDict [(''version'', PStr (app_version L)), (''created_at'', PStr now),
            (''last_migration'', PStr now), (''total_records'', PInt 0)]"

text \<open>\<^verbatim>\<open>_create_backup\<close> (lines 134--141): a failure is logged, never raised.\<close>

definition db_create_backup :: "fs \<Rightarrow> fs" where
  "db_create_backup s =
     (if db s \<noteq> Absent \<and> backup_writable s then s\<lparr>backup := db s\<rparr> else s)"

text \<open>\<^verbatim>\<open>data.get("songs", [])\<close>.\<close>

definition data_songs :: "pydict \<Rightarrow> pyval" where
  "data_songs d = (case dget d ''songs'' of None \<Rightarrow> PList [] | Some v \<Rightarrow> v)"

text \<open>
  \<^verbatim>\<open>_write_data\<close> (lines 92--132). Every exception of the body is raised again as
  \<^verbatim>\<open>DatabaseWriteError\<close>: \<^verbatim>\<open>data\<close> that is no dictionary, a \<^verbatim>\<open>"metadata"\<close> entry that
  is no dictionary (the item assignment fails), songs without a length, a document
  \<^verbatim>\<open>json.dump\<close> cannot serialize, a temporary file that cannot be written or renamed. The
  database file changes only in the last step, the rename.
\<close>

definition db_write_data :: "pylib \<Rightarrow> string \<Rightarrow> pyval \<Rightarrow> fs \<Rightarrow> (error + unit) \<times> fs" where
  "db_write_data L now data s =
     (let s1 = db_create_backup s in
      case data of
        PDict d \<Rightarrow>
          (let d1 = (if dget d ''metadata'' = None then dset d ''metadata'' (db_get_metadata L now)
                     else d)
           in case dget d1 ''metadata'' of
                Some (PDict m) \<Rightarrow>
                  (case py_len (data_songs d1) of
                     None \<Rightarrow> (Inl DatabaseWriteError, s1)
                   | Some n \<Rightarrow>
                       (let m1 = dset (dset m ''last_updated'' (PStr now))
                                   ''total_records'' (PInt (int n));
                            d2 = dset d1 ''metadata'' (PDict m1)
                        in if json_ok (PDict d2) \<and> writable s1
                           then (Inr (), s1\<lparr>db := Json (PDict d2)\<rparr>)
                           else (Inl DatabaseWriteError, s1)))
              | _ \<Rightarrow> (Inl DatabaseWriteError, s1))
      | _ \<Rightarrow> (Inl DatabaseWriteError, s1))"

definition db_initialize_database :: "pylib \<Rightarrow> string \<Rightarrow> fs \<Rightarrow> (error + unit) \<times> fs" where
  "db_initialize_database L now s =
     (if db s = Absent
      then db_write_data L now
             (PDict [(''songs'', PList []), (''metadata'', db_get_metadata L now)]) s
      else (Inr (), s))"

text \<open>
  \<^verbatim>\<open>_read_data\<close> (lines 50--90) returns the dictionary. Every exception is raised again
  as \<^verbatim>\<open>DatabaseReadError\<close>, also the one of \<^verbatim>\<open>len(data.get('songs', []))\<close> in the
  debug message (line 79), which is evaluated whatever the log level.
\<close>

definition db_read_data :: "pylib \<Rightarrow> string \<Rightarrow> fs \<Rightarrow> (error + pydict) \<times> fs" where
  "db_read_data L now s =
     (case db s of
        Absent \<Rightarrow>
          (case db_initialize_database L now s of
             (Inl e, s1) \<Rightarrow> (Inl DatabaseReadError, s1)
           | (Inr u, s1) \<Rightarrow>
               (Inr [(''songs'', PList []), (''metadata'', db_get_metadata L now)], s1))
      | Corrupt \<Rightarrow> (Inl DatabaseReadError, s)
      | Json v \<Rightarrow>
          (case v of
             PDict d \<Rightarrow>
               (let d1 = (if dget d ''songs'' = None then dset d ''songs'' (PList []) else d);
                    d2 = (if dget d1 ''metadata'' = None
                          then dset d1 ''metadata'' (db_get_metadata L now) else d1)
                in if py_len (data_songs d2) = None then (Inl DatabaseReadError, s)
                   else (Inr d2, s))
           | _ \<Rightarrow> (Inl DatabaseReadError, s)))"

text \<open>
  \<^verbatim>\<open>get_all_songs\<close> (lines 143--172): an element \<^verbatim>\<open>Song(**song_data)\<close> rejects, or that
  is no dictionary, is skipped.
\<close>

definition Song_parse :: "pylib \<Rightarrow> pyval \<Rightarrow> Song option" where
  "Song_parse L e =
     (case e of
        PDict d \<Rightarrow> (case Song L d of Inl es \<Rightarrow> None | Inr g \<Rightarrow> Some g)
      | _ \<Rightarrow> None)"

definition db_get_all_songs :: "pylib \<Rightarrow> string \<Rightarrow> fs \<Rightarrow> (error + Song list) \<times> fs" where
  "db_get_all_songs L now s =
     (case db_read_data L now s of
        (Inl e, s1) \<Rightarrow> (Inl DatabaseReadError, s1)
      | (Inr data, s1) \<Rightarrow>
          (case py_iter (data_songs data) of
             None \<Rightarrow> (Inl DatabaseReadError, s1)
           | Some songs_data \<Rightarrow> (Inr (List.map_filter (Song_parse L) songs_data), s1)))"

text \<open>\<^verbatim>\<open>get_song_by_id\<close> (lines 174--195): the first listed song with the id.\<close>

definition db_get_song_by_id ::
  "pylib \<Rightarrow> string \<Rightarrow> int \<Rightarrow> fs \<Rightarrow> (error + Song option) \<times> fs" where
  "db_get_song_by_id L now i s =
     (case db_get_all_songs L now s of
        (Inl e, s1) \<Rightarrow> (Inl DatabaseReadError, s1)
      | (Inr songs, s1) \<Rightarrow> (Inr (find (\<lambda>g. song_id g = i) songs), s1))"

text \<open>
  \<^verbatim>\<open>create_song\<close> (lines 197--245). Lines 215--216 compute the id; lines 222--228 build
  the dictionary, where \<^verbatim>\<open>**song_data.dict()\<close> comes after \<^verbatim>\<open>"id"\<close> and \<^verbatim>\<open>"uuid"\<close> and
  before the timestamps; \<open>uuid4\<close> is the text \<^verbatim>\<open>str(uuid4())\<close> returns. A
  \<^verbatim>\<open>DatabaseReadError\<close> is raised again as it is, every other exception as
  \<^verbatim>\<open>DatabaseWriteError\<close>.
\<close>

definition new_song_id :: "pyval list \<Rightarrow> int option" where
  "new_song_id songs_data =
     (case those (map (\<lambda>song. elem_get song ''id'' (PInt 0)) songs_data) of
        None \<Rightarrow> None
      | Some existing_ids \<Rightarrow> max_plus_one existing_ids)"

definition new_song_dict :: "int \<Rightarrow> string \<Rightarrow> string \<Rightarrow> 'a SongBase_scheme \<Rightarrow> pydict" where
  "new_song_dict new_id uuid4 now song_data =
     dset (dset (dupdate [(''id'', PInt new_id), (''uuid'', PStr uuid4)] (SongBase_dict song_data))
       ''created_at'' (PStr now)) ''updated_at'' (PStr now)"

definition db_create_song ::
  "pylib \<Rightarrow> string \<Rightarrow> string \<Rightarrow> SongBase \<Rightarrow> fs \<Rightarrow> (error + Song) \<times> fs" where
  "db_create_song L now uuid4 song_data s =
     (case db_read_data L now s of
        (Inl e, s1) \<Rightarrow> (Inl DatabaseReadError, s1)
      | (Inr data, s1) \<Rightarrow>
          (case py_iter (data_songs data) of
             None \<Rightarrow> (Inl DatabaseWriteError, s1)
           | Some songs_data \<Rightarrow>
               (case new_song_id songs_data of
                  None \<Rightarrow> (Inl DatabaseWriteError, s1)
                | Some new_id \<Rightarrow>
                    (case Song L (new_song_dict new_id uuid4 now song_data) of
                       Inl es \<Rightarrow> (Inl DatabaseWriteError, s1)
                     | Inr song \<Rightarrow>
                         (case data_songs data of
                            PList xs \<Rightarrow>
                              (case db_write_data L now
                                      (PDict (dset data ''songs''
                                                (PList (xs @ [PDict (Song_dict song)])))) s1 of
                                 (Inl e, s2) \<Rightarrow> (Inl DatabaseWriteError, s2)
                               | (Inr u, s2) \<Rightarrow> (Inr song, s2))
                          | _ \<Rightarrow> (Inl DatabaseWriteError, s1))))))"

text \<open>
  \<^verbatim>\<open>update_song\<close> (lines 247--303). The loop of lines 267--271 stops at the first element
  whose \<^verbatim>\<open>"id"\<close> equals \<^verbatim>\<open>song_id\<close>; lines 277--285 merge the supplied fields and the
  new \<^verbatim>\<open>updated_at\<close> into that element; lines 288--289 validate it and put
  \<^verbatim>\<open>updated_song.dict()\<close> in its place. \<^verbatim>\<open>SongNotFoundError\<close> and
  \<^verbatim>\<open>DatabaseWriteError\<close> are raised again as they are, every other exception (also a
  \<^verbatim>\<open>DatabaseReadError\<close>) as \<^verbatim>\<open>DatabaseWriteError\<close>.
\<close>

fun find_song_index :: "int \<Rightarrow> pyval list \<Rightarrow> nat option option" where
  "find_song_index i [] = Some None"
| "find_song_index i (e # es) =
     (case elem_get e ''id'' PNone of
        None \<Rightarrow> None
      | Some v \<Rightarrow>
          if py_eq_int v i then Some (Some 0)
          else map_option (map_option Suc) (find_song_index i es))"

definition merge_update :: "pydict \<Rightarrow> pydict \<Rightarrow> string \<Rightarrow> pydict" where
  "merge_update current_song update_data now =
     dset (dupdate current_song update_data) ''updated_at'' (PStr now)"

definition update_song_data ::
  "pylib \<Rightarrow> string \<Rightarrow> int \<Rightarrow> SongUpdate \<Rightarrow> pydict \<Rightarrow> error + (pydict \<times> Song)" where
  "update_song_data L now i song_data data =
     (case py_iter (data_songs data) of
        None \<Rightarrow> Inl DatabaseWriteError
      | Some songs_data \<Rightarrow>
          (case find_song_index i songs_data of
             None \<Rightarrow> Inl DatabaseWriteError
           | Some None \<Rightarrow> Inl SongNotFoundError
           | Some (Some song_index) \<Rightarrow>
               (case songs_data ! song_index of
                  PDict current_song \<Rightarrow>
                    (case Song L (merge_update current_song
                                    (SongUpdate_dict_exclude_unset song_data) now) of
                       Inl es \<Rightarrow> Inl DatabaseWriteError
                     | Inr updated_song \<Rightarrow>
                         Inr (dset data ''songs''
                                (PList (songs_data[song_index := PDict (Song_dict updated_song)])),
                              updated_song))
                | _ \<Rightarrow> Inl DatabaseWriteError)))"

definition db_update_song ::
  "pylib \<Rightarrow> string \<Rightarrow> int \<Rightarrow> SongUpdate \<Rightarrow> fs \<Rightarrow> (error + Song) \<times> fs" where
  "db_update_song L now i song_data s =
     (case db_read_data L now s of
        (Inl e, s1) \<Rightarrow> (Inl DatabaseWriteError, s1)
      | (Inr data, s1) \<Rightarrow>
          (case update_song_data L now i song_data data of
             Inl e \<Rightarrow> (Inl e, s1)
           | Inr (data1, updated_song) \<Rightarrow>
               (case db_write_data L now (PDict data1) s1 of
                  (Inl e, s2) \<Rightarrow> (Inl DatabaseWriteError, s2)
                | (Inr u, s2) \<Rightarrow> (Inr updated_song, s2))))"

text \<open>
  \<^verbatim>\<open>delete_song\<close> (lines 305--339): the comprehension of line 324 keeps the elements whose
  \<^verbatim>\<open>"id"\<close> differs from \<^verbatim>\<open>song_id\<close>; with nothing removed the method returns
  \<^verbatim>\<open>False\<close> before any write. Every exception that is no \<^verbatim>\<open>DatabaseWriteError\<close> (also a
  \<^verbatim>\<open>DatabaseReadError\<close>) is raised again as \<^verbatim>\<open>DatabaseWriteError\<close>.
\<close>

definition remove_song_id :: "int \<Rightarrow> pyval list \<Rightarrow> pyval list option" where
  "remove_song_id i songs_data =
     (case those (map (\<lambda>song. elem_get song ''id'' PNone) songs_data) of
        None \<Rightarrow> None
      | Some ids \<Rightarrow>
          Some (filter (\<lambda>song. \<not> py_eq_int (the (elem_get song ''id'' PNone)) i) songs_data))"

definition db_delete_song :: "pylib \<Rightarrow> string \<Rightarrow> int \<Rightarrow> fs \<Rightarrow> (error + bool) \<times> fs" where
  "db_delete_song L now i s =
     (case db_read_data L now s of
        (Inl e, s1) \<Rightarrow> (Inl DatabaseWriteError, s1)
      | (Inr data, s1) \<Rightarrow>
          (case py_iter (data_songs data) of
             None \<Rightarrow> (Inl DatabaseWriteError, s1)
           | Some songs_data \<Rightarrow>
               (case remove_song_id i songs_data of
                  None \<Rightarrow> (Inl DatabaseWriteError, s1)
                | Some kept \<Rightarrow>
                    if length kept = length songs_data then (Inr False, s1)
                    else (case db_write_data L now (PDict (dset data ''songs'' (PList kept))) s1 of
                            (Inl e, s2) \<Rightarrow> (Inl DatabaseWriteError, s2)
                          | (Inr u, s2) \<Rightarrow> (Inr True, s2)))))"


section \<open>app.py: the paginated listing\<close>

text \<open>
  \<^verbatim>\<open>get_songs\<close> (lines 228--276). \<open>page_arg\<close> and \<open>per_page_arg\<close> are what
  \<^verbatim>\<open>request.args.get(..., type=int)\<close> returns (the default when the parameter is absent
  or no integer). A \<^verbatim>\<open>DatabaseReadError\<close> becomes an \<^verbatim>\<open>AppException\<close> with the code
  \<^verbatim>\<open>DATABASE_READ_ERROR\<close>.
\<close>

record SongList =
  songs :: "Song list"
  total :: int
  page :: int
  per_page :: int
  has_next :: bool
  has_prev :: bool

datatype app_error = AppException string nat

definition paginate :: "int \<Rightarrow> int \<Rightarrow> Song list \<Rightarrow> SongList" where
  "paginate page_arg per_page_arg all_songs =
     (let pg = max 1 page_arg;
          pp = min 100 (max 1 per_page_arg);
          tot = int (length all_songs);
          start_idx = (pg - 1) * pp;
          end_idx = start_idx + pp
      in \<lparr>songs = py_slice all_songs start_idx end_idx, total = tot, page = pg, per_page = pp,
          has_next = (end_idx < tot), has_prev = (pg > 1)\<rparr>)"

definition get_songs ::
  "pylib \<Rightarrow> string \<Rightarrow> int \<Rightarrow> int \<Rightarrow> fs \<Rightarrow> (app_error + SongList) \<times> fs" where
  "get_songs L now page_arg per_page_arg s =
     (case db_get_all_songs L now s of
        (Inl e, s1) \<Rightarrow> (Inl (AppException ''DATABASE_READ_ERROR'' 500), s1)
      | (Inr all_songs, s1) \<Rightarrow> (Inr (paginate page_arg per_page_arg all_songs), s1))"


section \<open>api-python/main.py: the minimal variant\<close>

text \<open>
  A route returns the status of the response and its \<^verbatim>\<open>data\<close> (the message text is left
  out); \<^verbatim>\<open>abort(n)\<close> is the response with status \<open>n\<close> and no data, and an exception no
  handler catches is the response 500. \<open>body\<close> is what
  \<^verbatim>\<open>request.get_json(silent=True)\<close> returns: \<^const>\<open>None\<close> for a body that is no JSON,
  else the dictionary (a JSON body that is no object is not modelled).
\<close>

record response =
  status :: nat
  data :: "pyval option"

text \<open>
  \<^verbatim>\<open>write_data\<close> (lines 63--73) opens the database file for writing and dumps into it;
  every exception is printed and dropped. A document \<^verbatim>\<open>json.dump\<close> cannot serialize
  leaves a truncated file.
\<close>

definition write_data :: "pyval \<Rightarrow> fs \<Rightarrow> fs" where
  "write_data d s =
     (if writable s then (if json_ok d then s\<lparr>db := Json d\<rparr> else s\<lparr>db := Corrupt\<rparr>) else s)"

definition ensure_db_exists :: "fs \<Rightarrow> fs" where
  "ensure_db_exists s =
     (if db s = Absent then write_data (PDict [(''songs'', PList [])]) s else s)"

text \<open>
  \<^verbatim>\<open>read_data\<close> (lines 42--60) returns \<^verbatim>\<open>{"songs": list(...)}\<close>, the empty list whenever
  anything fails; the model returns the list.
\<close>

definition read_data :: "fs \<Rightarrow> pyval list \<times> fs" where
  "read_data s =
     (let s1 = ensure_db_exists s in
      case db s1 of
        Json (PDict d) \<Rightarrow>
          (case py_iter (data_songs d) of None \<Rightarrow> ([], s1) | Some xs \<Rightarrow> (xs, s1))
      | _ \<Rightarrow> ([], s1))"

definition get_all_songs :: "fs \<Rightarrow> response \<times> fs" where
  "get_all_songs s =
     (case read_data s of (xs, s1) \<Rightarrow> (\<lparr>status = 200, data = Some (PList xs)\<rparr>, s1))"

text \<open>\<^verbatim>\<open>next((s for s in songs if s.get("id") == song_id), None)\<close> of \<^verbatim>\<open>get_song\<close>.\<close>

fun first_with_id :: "int \<Rightarrow> pyval list \<Rightarrow> pyval option option" where
  "first_with_id i [] = Some None"
| "first_with_id i (e # es) =
     (case elem_get e ''id'' PNone of
        None \<Rightarrow> None
      | Some v \<Rightarrow> if py_eq_int v i then Some (Some e) else first_with_id i es)"

definition get_song :: "int \<Rightarrow> fs \<Rightarrow> response \<times> fs" where
  "get_song i s =
     (case read_data s of
        (xs, s1) \<Rightarrow>
          (case first_with_id i xs of
             None \<Rightarrow> (\<lparr>status = 500, data = None\<rparr>, s1)
           | Some None \<Rightarrow> (\<lparr>status = 404, data = None\<rparr>, s1)
           | Some (Some song) \<Rightarrow> (\<lparr>status = 200, data = Some song\<rparr>, s1)))"

text \<open>
  \<^verbatim>\<open>add_song\<close> (lines 138--163). Line 154 keeps the ids that are integers; line 155 takes
  their maximum plus one, or 1; lines 157--158 build \<^verbatim>\<open>{"id": new_id}\<close> and then
  \<^verbatim>\<open>update\<close> it with the whole body.
\<close>

definition existing_int_ids :: "pyval list \<Rightarrow> int list option" where
  "existing_int_ids xs =
     (case those (map (\<lambda>s. elem_get s ''id'' PNone) xs) of
        None \<Rightarrow> None
      | Some ids \<Rightarrow> Some (List.map_filter as_int ids))"

definition next_id :: "int list \<Rightarrow> int" where
  "next_id existing_ids =
     (case existing_ids of [] \<Rightarrow> 1 | n # ns \<Rightarrow> fold max ns n + 1)"

definition add_song :: "pydict option \<Rightarrow> fs \<Rightarrow> response \<times> fs" where
  "add_song body s =
     (case body of
        None \<Rightarrow> (\<lparr>status = 400, data = None\<rparr>, s)
      | Some b \<Rightarrow>
          if b = [] then (\<lparr>status = 400, data = None\<rparr>, s)
          else if dget b ''titulo'' = None \<or> dget b ''artista'' = None
          then (\<lparr>status = 400, data = None\<rparr>, s)
          else
            (case read_data s of
               (xs, s1) \<Rightarrow>
                 (case existing_int_ids xs of
                    None \<Rightarrow> (\<lparr>status = 500, data = None\<rparr>, s1)
                  | Some existing_ids \<Rightarrow>
                      (let new_song = dupdate [(''id'', PInt (next_id existing_ids))] b
                       in (\<lparr>status = 201, data = Some (PDict new_song)\<rparr>,
                           write_data (PDict [(''songs'', PList (xs @ [PDict new_song]))]) s1)))))"

text \<open>
  \<^verbatim>\<open>update_song\<close> (lines 166--185): at the first element with the id, \<^verbatim>\<open>"id"\<close> is popped
  from the body and the body merged over the element.
\<close>

fun update_first :: "int \<Rightarrow> pydict \<Rightarrow> pyval list \<Rightarrow> (pyval list \<times> pyval) option option" where
  "update_first i b [] = Some None"
| "update_first i b (e # es) =
     (case e of
        PDict sd \<Rightarrow>
          if py_eq_int (case dget sd ''id'' of None \<Rightarrow> PNone | Some v \<Rightarrow> v) i
          then (let updated = PDict (dupdate sd (dpop b ''id'')) in Some (Some (updated # es, updated)))
          else map_option (map_option (\<lambda>r. (e # fst r, snd r))) (update_first i b es)
      | _ \<Rightarrow> None)"

definition update_song :: "int \<Rightarrow> pydict option \<Rightarrow> fs \<Rightarrow> response \<times> fs" where
  "update_song i body s =
     (case body of
        None \<Rightarrow> (\<lparr>status = 400, data = None\<rparr>, s)
      | Some b \<Rightarrow>
          (case read_data s of
             (xs, s1) \<Rightarrow>
               (case update_first i b xs of
                  None \<Rightarrow> (\<lparr>status = 500, data = None\<rparr>, s1)
                | Some None \<Rightarrow> (\<lparr>status = 404, data = None\<rparr>, s1)
                | Some (Some (ys, updated)) \<Rightarrow>
                    (\<lparr>status = 200, data = Some updated\<rparr>,
                     write_data (PDict [(''songs'', PList ys)]) s1))))"

text \<open>
  \<^verbatim>\<open>delete_song\<close> (lines 188--197): \<^verbatim>\<open>any(...)\<close> stops at the first element with the id;
  the comprehension of line 195 then reads the id of every element.
\<close>

definition delete_song :: "int \<Rightarrow> fs \<Rightarrow> response \<times> fs" where
  "delete_song i s =
     (case read_data s of
        (xs, s1) \<Rightarrow>
          (case first_with_id i xs of
             None \<Rightarrow> (\<lparr>status = 500, data = None\<rparr>, s1)
           | Some None \<Rightarrow> (\<lparr>status = 404, data = None\<rparr>, s1)
           | Some (Some song) \<Rightarrow>
               (case remove_song_id i xs of
                  None \<Rightarrow> (\<lparr>status = 500, data = None\<rparr>, s1)
                | Some kept \<Rightarrow>
                    (\<lparr>status = 200, data = None\<rparr>,
                     write_data (PDict [(''songs'', PList kept)]) s1))))"


section \<open>Fixtures\<close>

text \<open>
  The sample data of \<^verbatim>\<open>tests/conftest.py\<close> (\<^verbatim>\<open>sample_songs_data\<close>), and one setting of
  the library parameters: \<^verbatim>\<open>int()\<close> rejects every string, the datetime parser accepts
  every string, the year is 2026.
\<close>

definition test_lib :: pylib where
  "test_lib = \<lparr>int_of_str = (\<lambda>s. None),
               parse_datetime = (\<lambda>v. case v of PStr s \<Rightarrow> Some s | _ \<Rightarrow> None),
               current_year = 2026, app_version = ''1.0.0''\<rparr>"

definition sample_record :: "int \<Rightarrow> string \<Rightarrow> string \<Rightarrow> string \<Rightarrow> int \<Rightarrow> pydict" where
  "sample_record i t a al y =
     [(''id'', PInt i), (''uuid'', PStr ''550e8400''), (''titulo'', PStr t),
      (''artista'', PStr a), (''album'', PStr al), (anio_key, PInt y),
      (''created_at'', PStr ''2023-01-01T00:00:00''),
      (''updated_at'', PStr ''2023-01-01T00:00:00'')]"

definition sample_song :: "int \<Rightarrow> string \<Rightarrow> string \<Rightarrow> string \<Rightarrow> int \<Rightarrow> pyval" where
  "sample_song i t a al y = PDict (sample_record i t a al y)"

definition sample_songs_data :: pyval where
  "sample_songs_data =
     PDict [(''songs'',
             PList [sample_song 1 ''Bohemian Rhapsody'' ''Queen'' ''A Night at the Opera'' 1975,
                    sample_song 2 ''Imagine'' ''John Lennon'' ''Imagine'' 1971,
                    sample_song 3 ''Yesterday'' ''The Beatles'' ''Help!'' 1965])]"

definition sample_fs :: fs where
  "sample_fs =
     \<lparr>db = Json sample_songs_data, backup = Absent, writable = True, backup_writable = True\<rparr>"

text \<open>A store whose directory takes no write, and two readings of the clock.\<close>

definition readonly_fs :: fs where
  "readonly_fs = sample_fs\<lparr>writable := False\<rparr>"

definition clock0 :: string where
  "clock0 = ''2026-01-01T00:00:00''"

definition clock1 :: string where
  "clock1 = ''2026-01-02T00:00:00''"

text \<open>
  A document whose metadata is out of date, a valid create payload as \<^verbatim>\<open>SongCreate\<close>
  returns it, and the update \<^verbatim>\<open>{"album": "X"}\<close> as \<^verbatim>\<open>SongUpdate\<close> returns it.
\<close>

definition stale_document :: pydict where
  "stale_document =
     [(''songs'', PList [sample_song 1 ''Imagine'' ''John Lennon'' ''Imagine'' 1971,
                         sample_song 2 ''Yesterday'' ''The Beatles'' ''Help!'' 1965]),
      (''metadata'', PDict [(''version'', PStr ''0.9''), (''total_records'', PInt 99),
                            (''last_updated'', PStr ''1999-12-31T23:59:59'')])]"

definition sample_create :: SongBase where
  "sample_create = \<lparr>titulo = ''Imagine'', artista = ''John Lennon'', album = None, anio = None\<rparr>"

definition album_update :: SongUpdate where
  "album_update = \<lparr>u_titulo = None, u_artista = None, u_album = Some ''X'', u_anio = None,
                    fields_set = [''album'']\<rparr>"

text \<open>A document in which two records share the id 1.\<close>

definition duplicate_fs :: fs where
  "duplicate_fs =
     \<lparr>db = Json (PDict [(''songs'',
                         PList [sample_song 1 ''First'' ''Queen'' ''A'' 1975,
                                sample_song 1 ''Second'' ''Queen'' ''B'' 1976,
                                sample_song 2 ''Third'' ''Queen'' ''C'' 1977])]),
      backup = Absent, writable = True, backup_writable = True\<rparr>"

text \<open>
  Create payloads: names with surrounding blanks, a title of blanks only, and a title of
  200 letters followed by one blank.
\<close>

definition padded_payload :: pydict where
  "padded_payload = [(''titulo'', PStr ''  Imagine ''), (''artista'', PStr '' John Lennon  '')]"

definition blank_title_payload :: pydict where
  "blank_title_payload = [(''titulo'', PStr ''   ''), (''artista'', PStr ''John Lennon'')]"

definition long_padded_payload :: pydict where
  "long_padded_payload =
     [(''titulo'', PStr (replicate 200 (CHR ''a'') @ '' '')), (''artista'', PStr ''John Lennon'')]"
text \<open>The update \<^verbatim>\<open>SongUpdate\<close> returns for a title of blanks, and an empty store.\<close>

definition blank_title_update :: SongUpdate where
  "blank_title_update = \<lparr>u_titulo = Some [], u_artista = None, u_album = None, u_anio = None,
                          fields_set = [''titulo'']\<rparr>"

definition empty_fs :: fs where
  "empty_fs = \<lparr>db = Json (PDict [(''songs'', PList [])]), backup = Absent, writable = True,
                backup_writable = True\<rparr>"


section \<open>Dictionaries\<close>

lemma dget_dset: "dget (dset d k v) k' = (if k' = k then Some v else dget d k')"
  by (simp add: dget_def dset_def update_conv')


lemma dget_dupdate_other: "dget e k = None \<Longrightarrow> dget (dupdate d e) k = dget d k"
proof (induction e arbitrary: d)
  case Nil
  then show ?case by (simp add: dupdate_def)
next
  case (Cons kv e)
  from Cons.prems have k: "fst kv \<noteq> k" and e: "dget e k = None"
    by (auto simp: dget_def split: if_splits)
  have "dget (dupdate d (kv # e)) k = dget (dupdate (dset d (fst kv) (snd kv)) e) k"
    by (simp add: dupdate_def)
  also have "\<dots> = dget (dset d (fst kv) (snd kv)) k"
    using Cons.IH [OF e] .
  also have "\<dots> = dget d k"
    using k by (simp add: dget_dset)
  finally show ?case .
qed

lemma json_ok_dset:
  "json_ok (PDict d) \<Longrightarrow> json_ok v \<Longrightarrow> json_ok (PDict (dset d k v))"
  by (induction d) (auto simp: dset_def)

lemma json_ok_dupdate:
  "json_ok (PDict d) \<Longrightarrow> json_ok (PDict e) \<Longrightarrow> json_ok (PDict (dupdate d e))"
proof (induction e arbitrary: d)
  case Nil
  then show ?case by (simp add: dupdate_def)
next
  case (Cons kv e)
  from Cons.prems have "json_ok (snd kv)" "json_ok (PDict e)" by simp_all
  from Cons.prems(1) \<open>json_ok (snd kv)\<close> have "json_ok (PDict (dset d (fst kv) (snd kv)))"
    by (rule json_ok_dset)
  from Cons.IH [OF this \<open>json_ok (PDict e)\<close>] show ?case
    by (simp add: dupdate_def)
qed



lemma py_iter_len: "py_iter v = Some xs \<Longrightarrow> py_len v = Some (length xs)"
  by (auto simp: py_len_def py_iter_def split: pyval.splits)

lemma json_ok_iter: "json_ok v \<Longrightarrow> py_iter v = Some xs \<Longrightarrow> list_all json_ok xs"
  by (auto simp: py_iter_def list_all_iff split: pyval.splits)


section \<open>Pagination\<close>

lemma paginate_props:
  "per_page (paginate pa ppa xs) = min 100 (max 1 ppa)"
  "page (paginate pa ppa xs) = max 1 pa"
  "total (paginate pa ppa xs) = int (length xs)"
  "has_next (paginate pa ppa xs) = (max 1 pa * min 100 (max 1 ppa) < int (length xs))"
  "has_prev (paginate pa ppa xs) = (max 1 pa > 1)"
  "songs (paginate pa ppa xs) =
     take (nat (min 100 (max 1 ppa))) (drop (nat ((max 1 pa - 1) * min 100 (max 1 ppa))) xs)"
  by (simp_all add: paginate_def py_slice_def Let_def algebra_simps)

text \<open>
  Claim C9. Whenever the listing can be read, \<^verbatim>\<open>get_songs\<close> answers (also for a page
  beyond the last, whose item list is empty): \<^verbatim>\<open>per_page\<close> is the parameter clamped to
  1..100, \<^verbatim>\<open>page\<close> the parameter raised to at least 1, \<^verbatim>\<open>has_next\<close> is
  \<^verbatim>\<open>page * per_page < total\<close>, \<^verbatim>\<open>has_prev\<close> is \<^verbatim>\<open>page > 1\<close>, and the items are the
  \<^verbatim>\<open>per_page\<close> songs after the first \<^verbatim>\<open>(page - 1) * per_page\<close>.
\<close>

theorem get_songs_pagination:
  assumes "db_get_all_songs L now s = (Inr all_songs, s1)"
  shows "\<exists>r. get_songs L now page_arg per_page_arg s = (Inr r, s1)
           \<and> per_page r = min 100 (max 1 per_page_arg) \<and> 1 \<le> per_page r \<and> per_page r \<le> 100
           \<and> page r = max 1 page_arg \<and> 1 \<le> page r
           \<and> total r = int (length all_songs)
           \<and> has_next r = (page r * per_page r < total r)
           \<and> has_prev r = (page r > 1)
           \<and> songs r = take (nat (per_page r)) (drop (nat ((page r - 1) * per_page r)) all_songs)
           \<and> length (songs r) \<le> nat (per_page r)
           \<and> (total r \<le> (page r - 1) * per_page r \<longrightarrow> songs r = [])"
proof -
  let ?r = "paginate page_arg per_page_arg all_songs"
  have g: "get_songs L now page_arg per_page_arg s = (Inr ?r, s1)"
    using assms by (simp add: get_songs_def)
  have "total ?r \<le> (page ?r - 1) * per_page ?r \<longrightarrow> songs ?r = []"
    by (simp add: paginate_props)
  with g show ?thesis
    by (intro exI [of _ ?r]) (simp add: paginate_props)
qed

lemma sample_listing:
  "fst (db_get_all_songs test_lib ''2026-01-01T00:00:00'' sample_fs) \<noteq> Inl DatabaseReadError"
  by code_simp

lemma sample_listing_length:
  "length (projr (fst (db_get_all_songs test_lib ''2026-01-01T00:00:00'' sample_fs))) = 3"
  by code_simp

text \<open>
  The example of the claim: three records and \<^verbatim>\<open>per_page=1\<close>; page 1 has one item,
  a next page and no previous one; page 4 has no item.
\<close>

theorem get_songs_pagination_witness:
  "(\<exists>r. fst (get_songs test_lib ''2026-01-01T00:00:00'' 1 1 sample_fs) = Inr r
        \<and> total r = 3 \<and> length (songs r) = 1 \<and> has_next r \<and> \<not> has_prev r)
   \<and> (\<exists>r. fst (get_songs test_lib ''2026-01-01T00:00:00'' 4 1 sample_fs) = Inr r
        \<and> total r = 3 \<and> songs r = [] \<and> \<not> has_next r \<and> has_prev r)"
proof -
  obtain xs s1 where a: "db_get_all_songs test_lib ''2026-01-01T00:00:00'' sample_fs = (Inr xs, s1)"
    using sample_listing
    by (cases "db_get_all_songs test_lib ''2026-01-01T00:00:00'' sample_fs")
       (auto simp: db_get_all_songs_def split: prod.splits sum.splits option.splits)
  have len: "length xs = 3"
    using sample_listing_length a by simp
  from get_songs_pagination [OF a, of 1 1] get_songs_pagination [OF a, of 4 1] len
  show ?thesis
    by auto
qed


section \<open>The professional variant: writing and reading\<close>

lemma data_songs_dset_metadata: "data_songs (dset d ''metadata'' v) = data_songs d"
  by (simp add: data_songs_def dget_dset)

lemma data_songs_dset_songs: "data_songs (dset d ''songs'' v) = v"
  by (simp add: data_songs_def dget_dset)

lemma db_create_backup_fields:
  "db (db_create_backup s) = db s" "writable (db_create_backup s) = writable s"
  "backup_writable (db_create_backup s) = backup_writable s"
  by (simp_all add: db_create_backup_def)

lemma db_write_data_fail:
  assumes "db_write_data L now dat s = (Inl e, s1)"
  shows "e = DatabaseWriteError \<and> s1 = db_create_backup s"
  using assms
  by (auto simp: db_write_data_def Let_def split: pyval.splits option.splits if_splits)

lemma db_write_data_ok:
  assumes "db_write_data L now dat s = (Inr u, s1)"
  shows "\<exists>d doc m n. dat = PDict d \<and> writable s \<and> json_ok (PDict doc)
           \<and> s1 = (db_create_backup s)\<lparr>db := Json (PDict doc)\<rparr>
           \<and> dget doc ''metadata'' = Some (PDict m)
           \<and> dget m ''last_updated'' = Some (PStr now)
           \<and> dget m ''total_records'' = Some (PInt (int n))
           \<and> py_len (data_songs d) = Some n
           \<and> (\<forall>k. k \<noteq> ''metadata'' \<longrightarrow> dget doc k = dget d k)"
  using assms
  by (auto simp: db_write_data_def Let_def dget_dset data_songs_dset_metadata db_create_backup_fields
           split: pyval.splits option.splits if_splits)

lemma db_write_data_unwritable:
  "\<not> writable s \<Longrightarrow> db_write_data L now dat s = (Inl DatabaseWriteError, db_create_backup s)"
  by (auto simp: db_write_data_def Let_def db_create_backup_fields
           split: pyval.splits option.splits if_splits)

lemma py_len_iter: "py_len v = Some n \<Longrightarrow> \<exists>xs. py_iter v = Some xs \<and> length xs = n"
  by (auto simp: py_len_def py_iter_def split: pyval.splits)

lemma db_read_data_present:
  assumes "db s = Json (PDict d)" "dget d ''songs'' \<noteq> None" "dget d ''metadata'' \<noteq> None"
    "py_len (data_songs d) \<noteq> None"
  shows "db_read_data L now s = (Inr d, s)"
  using assms by (auto simp: db_read_data_def Let_def)

lemma db_read_data_state:
  assumes "db_read_data L now s = (r, s1)" "db s \<noteq> Absent"
  shows "s1 = s"
  using assms
  by (auto simp: db_read_data_def Let_def split: file_content.splits pyval.splits if_splits)

lemma db_initialize_database_fields:
  assumes "db_initialize_database L now s = (r, s1)"
  shows "writable s1 = writable s \<and> (\<not> writable s \<longrightarrow> db s1 = db s)"
proof (cases r)
  case (Inl e)
  with assms show ?thesis
    by (auto simp: db_initialize_database_def db_create_backup_fields
             dest!: db_write_data_fail split: if_splits)
next
  case (Inr u)
  with assms show ?thesis
    by (auto simp: db_initialize_database_def db_create_backup_fields
             dest!: db_write_data_ok split: if_splits)
qed

lemma db_read_data_fields:
  assumes "db_read_data L now s = (r, s1)"
  shows "writable s1 = writable s \<and> (\<not> writable s \<longrightarrow> db s1 = db s)"
proof (cases "db s = Absent")
  case False
  with assms db_read_data_state show ?thesis by blast
next
  case True
  obtain r0 s0 where i: "db_initialize_database L now s = (r0, s0)"
    by (cases "db_initialize_database L now s")
  from assms True i have "s1 = s0"
    by (auto simp: db_read_data_def split: sum.splits)
  with db_initialize_database_fields [OF i] show ?thesis by simp
qed

lemma db_read_data_len:
  assumes "db_read_data L now s = (Inr d, s1)"
  shows "\<exists>xs. py_iter (data_songs d) = Some xs"
proof -
  from assms have "py_len (data_songs d) \<noteq> None"
    by (auto simp: db_read_data_def Let_def data_songs_def dget_def py_len_def
             split: file_content.splits pyval.splits if_splits prod.splits sum.splits)
  then show ?thesis using py_len_iter by blast
qed

lemma those_map_Some:
  "those (map f xs) = Some ys \<Longrightarrow> (\<forall>x\<in>set xs. f x \<noteq> None) \<and> ys = map (\<lambda>x. the (f x)) xs"
  by (induction xs arbitrary: ys) (auto split: option.splits)

lemma those_map_all:
  "(\<forall>x\<in>set xs. f x \<noteq> None) \<Longrightarrow> those (map f xs) = Some (map (\<lambda>x. the (f x)) xs)"
  by (induction xs) auto

lemma remove_song_id_Some:
  assumes "remove_song_id i xs = Some kept"
  shows "kept = filter (\<lambda>song. \<not> py_eq_int (the (elem_get song ''id'' PNone)) i) xs
         \<and> (\<forall>x\<in>set xs. elem_get x ''id'' PNone \<noteq> None)"
  using assms those_map_Some [of "\<lambda>song. elem_get song ''id'' PNone" xs]
  by (auto simp: remove_song_id_def split: option.splits)

lemma remove_song_id_idem:
  assumes "remove_song_id i xs = Some kept"
  shows "remove_song_id i kept = Some kept"
proof -
  from remove_song_id_Some [OF assms]
  have k: "kept = filter (\<lambda>song. \<not> py_eq_int (the (elem_get song ''id'' PNone)) i) xs"
    and a: "\<forall>x\<in>set xs. elem_get x ''id'' PNone \<noteq> None" by auto
  from a k have "\<forall>x\<in>set kept. elem_get x ''id'' PNone \<noteq> None" by auto
  from those_map_all [OF this] k show ?thesis
    by (simp add: remove_song_id_def)
qed

lemma db_delete_song_True:
  assumes "db_delete_song L now i s = (Inr True, s2)"
  shows "\<exists>d s1 xs kept doc m.
           db_read_data L now s = (Inr d, s1) \<and> py_iter (data_songs d) = Some xs
           \<and> remove_song_id i xs = Some kept \<and> length kept \<noteq> length xs
           \<and> writable s \<and> s2 = (db_create_backup s1)\<lparr>db := Json (PDict doc)\<rparr>
           \<and> json_ok (PDict doc)
           \<and> dget doc ''songs'' = Some (PList kept) \<and> dget doc ''metadata'' = Some (PDict m)
           \<and> dget m ''last_updated'' = Some (PStr now)
           \<and> dget m ''total_records'' = Some (PInt (int (length kept)))"
proof -
  obtain r s1 where rd: "db_read_data L now s = (r, s1)"
    by (cases "db_read_data L now s")
  from assms rd obtain d where r: "r = Inr d"
    by (cases r) (auto simp: db_delete_song_def)
  from assms rd r obtain xs where it: "py_iter (data_songs d) = Some xs"
    by (auto simp: db_delete_song_def split: option.splits)
  from assms rd r it obtain kept where rm: "remove_song_id i xs = Some kept"
    by (auto simp: db_delete_song_def split: option.splits)
  from assms rd r it rm have ne: "length kept \<noteq> length xs"
    by (auto simp: db_delete_song_def split: if_splits)
  from assms rd r it rm ne
  have w: "db_write_data L now (PDict (dset d ''songs'' (PList kept))) s1 = (Inr (), s2)"
    by (auto simp: db_delete_song_def split: prod.splits sum.splits)
  from db_write_data_ok [OF w] obtain doc m n where
    ws: "writable s1" and s2: "s2 = (db_create_backup s1)\<lparr>db := Json (PDict doc)\<rparr>"
    and j: "json_ok (PDict doc)"
    and md: "dget doc ''metadata'' = Some (PDict m)"
    and lu: "dget m ''last_updated'' = Some (PStr now)"
    and tr: "dget m ''total_records'' = Some (PInt (int n))"
    and n: "py_len (data_songs (dset d ''songs'' (PList kept))) = Some n"
    and fr: "\<forall>k. k \<noteq> ''metadata'' \<longrightarrow> dget doc k = dget (dset d ''songs'' (PList kept)) k"
    by auto
  from n have n': "n = length kept"
    by (simp add: data_songs_dset_songs py_len_def)
  from fr have sg: "dget doc ''songs'' = Some (PList kept)"
    by (simp add: dget_dset)
  from db_read_data_fields [OF rd] ws have "writable s" by simp
  with rd r it rm ne s2 j sg md lu tr n' show ?thesis by blast
qed

lemma db_delete_song_twice:
  assumes "db_delete_song L now i s = (Inr True, s2)"
  shows "db_delete_song L now' i s2 = (Inr False, s2)"
proof -
  from db_delete_song_True [OF assms] obtain xs kept doc m s1 where
    rm: "remove_song_id i xs = Some kept"
    and s2: "s2 = (db_create_backup s1)\<lparr>db := Json (PDict doc)\<rparr>"
    and sg: "dget doc ''songs'' = Some (PList kept)"
    and md: "dget doc ''metadata'' = Some (PDict m)"
    by blast
  from s2 have db: "db s2 = Json (PDict doc)" by simp
  from sg have ds: "data_songs doc = PList kept" by (simp add: data_songs_def)
  have rd: "db_read_data L now' s2 = (Inr doc, s2)"
    by (rule db_read_data_present [OF db]) (simp_all add: sg md ds py_len_def)
  show ?thesis
    using rd ds remove_song_id_idem [OF rm]
    by (simp add: db_delete_song_def py_iter_def)
qed

lemma db_delete_song_False:
  assumes "db_delete_song L now i s = (Inr False, s1)" "db s \<noteq> Absent"
  shows "s1 = s"
proof -
  obtain r s0 where rd: "db_read_data L now s = (r, s0)"
    by (cases "db_read_data L now s")
  from db_read_data_state [OF rd assms(2)] have "s0 = s" .
  with assms(1) rd show ?thesis
    by (auto simp: db_delete_song_def split: sum.splits option.splits if_splits prod.splits)
qed


section \<open>The professional variant: create and update never commit\<close>

lemma json_ok_dget: "json_ok (PDict d) \<Longrightarrow> dget d k = Some v \<Longrightarrow> json_ok v"
  by (auto simp: dget_def list_all_iff dest!: map_of_SomeD)

lemma Song_dict_not_json: "\<not> json_ok (PDict (Song_dict g))"
  by (simp add: Song_dict_def SongBase_dict_def)

lemma db_write_data_datetime:
  assumes "dget d ''songs'' = Some (PList xs)" "PDict (Song_dict g) \<in> set xs"
  shows "db_write_data L now (PDict d) s = (Inl DatabaseWriteError, db_create_backup s)"
proof (cases "db_write_data L now (PDict d) s")
  case (Pair r s1)
  show ?thesis
  proof (cases r)
    case (Inl e)
    with Pair db_write_data_fail show ?thesis by auto
  next
    case (Inr u)
    with Pair db_write_data_ok [of L now "PDict d" s u s1] obtain doc where
      j: "json_ok (PDict doc)" and fr: "\<forall>k. k \<noteq> ''metadata'' \<longrightarrow> dget doc k = dget d k"
      by auto
    from fr assms(1) have "dget doc ''songs'' = Some (PList xs)" by simp
    from json_ok_dget [OF j this] have "list_all json_ok xs" by simp
    with assms(2) have "json_ok (PDict (Song_dict g))"
      unfolding list_all_iff by blast
    with Song_dict_not_json show ?thesis by blast
  qed
qed

lemma find_song_index_Some:
  "find_song_index i xs = Some (Some k) \<Longrightarrow>
     k < length xs
     \<and> (\<exists>v. elem_get (xs ! k) ''id'' PNone = Some v \<and> py_eq_int v i)
     \<and> (\<forall>j<k. \<exists>v. elem_get (xs ! j) ''id'' PNone = Some v \<and> \<not> py_eq_int v i)"
proof (induction xs arbitrary: k)
  case Nil
  then show ?case by simp
next
  case (Cons e es)
  from Cons.prems obtain v where v: "elem_get e ''id'' PNone = Some v"
    by (auto split: option.splits)
  show ?case
  proof (cases "py_eq_int v i")
    case True
    with Cons.prems v show ?thesis by auto
  next
    case False
    with Cons.prems v obtain k' where k': "find_song_index i es = Some (Some k')" "k = Suc k'"
      by auto
    from Cons.IH [OF k'(1)] k'(2) v False show ?thesis
      by (auto simp: less_Suc_eq_0_disj)
  qed
qed

lemma update_song_data_Inr:
  assumes "update_song_data L now i su d = Inr (d1, g)"
  shows "\<exists>xs k cur. py_iter (data_songs d) = Some xs \<and> find_song_index i xs = Some (Some k)
           \<and> xs ! k = PDict cur
           \<and> Song L (merge_update cur (SongUpdate_dict_exclude_unset su) now) = Inr g
           \<and> d1 = dset d ''songs'' (PList (xs[k := PDict (Song_dict g)]))"
  using assms
  by (auto simp: update_song_data_def split: option.splits pyval.splits sum.splits)

lemma db_update_song_fails:
  "\<exists>s1. db_update_song L now i su s = (Inl DatabaseWriteError, s1)
        \<or> db_update_song L now i su s = (Inl SongNotFoundError, s1)"
proof -
  obtain r s0 where rd: "db_read_data L now s = (r, s0)"
    by (cases "db_read_data L now s")
  show ?thesis
  proof (cases r)
    case (Inl e)
    with rd show ?thesis by (simp add: db_update_song_def)
  next
    case (Inr d)
    show ?thesis
    proof (cases "update_song_data L now i su d")
      case (Inl e)
      then have "e = DatabaseWriteError \<or> e = SongNotFoundError"
        by (auto simp: update_song_data_def split: option.splits pyval.splits sum.splits)
      with rd Inr Inl show ?thesis by (auto simp: db_update_song_def)
    next
      case (Inr p)
      obtain d1 g where p: "p = (d1, g)" by (cases p)
      from update_song_data_Inr [OF Inr [unfolded p]] obtain xs k where
        k: "find_song_index i xs = Some (Some k)"
        and d1: "d1 = dset d ''songs'' (PList (xs[k := PDict (Song_dict g)]))"
        by blast
      from find_song_index_Some [OF k] have "k < length xs" by simp
      then have m: "PDict (Song_dict g) \<in> set (xs[k := PDict (Song_dict g)])"
        by (simp add: set_update_memI)
      have "dget d1 ''songs'' = Some (PList (xs[k := PDict (Song_dict g)]))"
        by (simp add: d1 dget_dset)
      from db_write_data_datetime [OF this m]
      have "db_write_data L now (PDict d1) s0 = (Inl DatabaseWriteError, db_create_backup s0)" .
      with rd \<open>r = Inr d\<close> Inr p show ?thesis by (simp add: db_update_song_def)
    qed
  qed
qed

lemma db_create_song_fails:
  "\<exists>s1. db_create_song L now u sd s = (Inl DatabaseReadError, s1)
        \<or> db_create_song L now u sd s = (Inl DatabaseWriteError, s1)"
proof -
  obtain r s0 where rd: "db_read_data L now s = (r, s0)"
    by (cases "db_read_data L now s")
  show ?thesis
  proof (cases r)
    case (Inl e)
    with rd show ?thesis by (simp add: db_create_song_def)
  next
    case (Inr d)
    have w: "db_write_data L now (PDict (dset d ''songs'' (PList (xs @ [PDict (Song_dict g)])))) s0
               = (Inl DatabaseWriteError, db_create_backup s0)" for xs g
      by (rule db_write_data_datetime [where xs = "xs @ [PDict (Song_dict g)]" and g = g])
         (simp_all add: dget_dset)
    from rd Inr show ?thesis
      by (auto simp: db_create_song_def w split: option.splits sum.splits pyval.splits)
  qed
qed

lemma db_create_song_db:
  "db (snd (db_create_song L now u sd s)) = db (snd (db_read_data L now s))"
proof -
  obtain r s0 where rd: "db_read_data L now s = (r, s0)"
    by (cases "db_read_data L now s")
  have w: "db_write_data L now (PDict (dset d ''songs'' (PList (xs @ [PDict (Song_dict g)])))) s0
               = (Inl DatabaseWriteError, db_create_backup s0)" for xs g d
    by (rule db_write_data_datetime [where xs = "xs @ [PDict (Song_dict g)]" and g = g])
       (simp_all add: dget_dset)
  from rd show ?thesis
    by (auto simp: db_create_song_def w db_create_backup_fields
             split: option.splits sum.splits pyval.splits)
qed

lemma db_update_song_db:
  "db (snd (db_update_song L now i su s)) = db (snd (db_read_data L now s))"
proof -
  obtain r s0 where rd: "db_read_data L now s = (r, s0)"
    by (cases "db_read_data L now s")
  show ?thesis
  proof (cases r)
    case (Inl e)
    with rd show ?thesis by (simp add: db_update_song_def)
  next
    case (Inr d)
    show ?thesis
    proof (cases "update_song_data L now i su d")
      case (Inl e)
      with rd \<open>r = Inr d\<close> show ?thesis by (simp add: db_update_song_def)
    next
      case (Inr p)
      obtain d1 g where p: "p = (d1, g)" by (cases p)
      from update_song_data_Inr [OF Inr [unfolded p]] obtain xs k where
        k: "find_song_index i xs = Some (Some k)"
        and d1: "d1 = dset d ''songs'' (PList (xs[k := PDict (Song_dict g)]))"
        by blast
      from find_song_index_Some [OF k] have "k < length xs" by simp
      then have m: "PDict (Song_dict g) \<in> set (xs[k := PDict (Song_dict g)])"
        by (simp add: set_update_memI)
      have "dget d1 ''songs'' = Some (PList (xs[k := PDict (Song_dict g)]))"
        by (simp add: d1 dget_dset)
      from db_write_data_datetime [OF this m]
      have "db_write_data L now (PDict d1) s0 = (Inl DatabaseWriteError, db_create_backup s0)" .
      with rd \<open>r = Inr d\<close> Inr p show ?thesis
        by (simp add: db_update_song_def db_create_backup_fields)
    qed
  qed
qed

lemma db_delete_song_unwritable:
  assumes "\<not> writable s"
  shows "fst (db_delete_song L now i s) \<noteq> Inr True \<and> db (snd (db_delete_song L now i s)) = db s"
proof -
  obtain r s0 where rd: "db_read_data L now s = (r, s0)"
    by (cases "db_read_data L now s")
  from db_read_data_fields [OF rd] assms have s0: "\<not> writable s0" "db s0 = db s" by auto
  from s0(1) have w: "db_write_data L now dat s0 = (Inl DatabaseWriteError, db_create_backup s0)" for dat
    by (rule db_write_data_unwritable)
  from rd s0 show ?thesis
    by (auto simp: db_delete_song_def w db_create_backup_fields
             split: option.splits sum.splits)
qed

lemma db_delete_song_unwritable_existing:
  assumes "\<not> writable s" "db_read_data L now s = (Inr d, s1)" "py_iter (data_songs d) = Some xs"
    "remove_song_id i xs = Some kept" "length kept \<noteq> length xs"
  shows "fst (db_delete_song L now i s) = Inl DatabaseWriteError"
proof -
  from db_read_data_fields [OF assms(2)] assms(1) have "\<not> writable s1" by auto
  then have w: "db_write_data L now dat s1 = (Inl DatabaseWriteError, db_create_backup s1)" for dat
    by (rule db_write_data_unwritable)
  from assms show ?thesis
    by (simp add: db_delete_song_def w)
qed


section \<open>The minimal variant: reading, writing, deleting\<close>

lemma write_data_fields:
  "writable (write_data d s) = writable s"
  "\<not> writable s \<Longrightarrow> write_data d s = s"
  "writable s \<Longrightarrow> db (write_data d s) = (if json_ok d then Json d else Corrupt)"
  by (simp_all add: write_data_def)

lemma ensure_db_exists_present: "db s \<noteq> Absent \<Longrightarrow> ensure_db_exists s = s"
  by (simp add: ensure_db_exists_def)

lemma read_data_present: "db s \<noteq> Absent \<Longrightarrow> snd (read_data s) = s"
  by (auto simp: read_data_def ensure_db_exists_present Let_def
           split: file_content.splits pyval.splits option.splits)

lemma read_data_writable: "writable (snd (read_data s)) = writable s"
  by (auto simp: read_data_def ensure_db_exists_def write_data_fields Let_def
           split: file_content.splits pyval.splits option.splits)

lemma read_data_songs:
  "db s = Json (PDict [(''songs'', PList xs)]) \<Longrightarrow> read_data s = (xs, s)"
  by (simp add: read_data_def ensure_db_exists_def data_songs_def dget_def py_iter_def)

lemma read_data_corrupt: "db s = Corrupt \<Longrightarrow> read_data s = ([], s)"
  by (simp add: read_data_def ensure_db_exists_def)

lemma first_with_id_none:
  "(\<forall>x\<in>set ys. \<exists>v. elem_get x ''id'' PNone = Some v \<and> \<not> py_eq_int v i)
     \<Longrightarrow> first_with_id i ys = Some None"
  by (induction ys) auto

lemma remove_song_id_first:
  assumes "remove_song_id i xs = Some kept"
  shows "first_with_id i kept = Some None"
proof -
  from remove_song_id_Some [OF assms]
  have "\<forall>x\<in>set kept. \<exists>v. elem_get x ''id'' PNone = Some v \<and> \<not> py_eq_int v i"
    by auto
  then show ?thesis by (rule first_with_id_none)
qed

lemma delete_song_404:
  assumes "db s \<noteq> Absent" "status (fst (delete_song i s)) = 404"
  shows "snd (delete_song i s) = s"
proof -
  obtain xs s1 where rd: "read_data s = (xs, s1)" by (cases "read_data s")
  with read_data_present [OF assms(1)] have "s1 = s" by simp
  with rd assms(2) show ?thesis
    by (auto simp: delete_song_def split: option.splits)
qed

lemma delete_song_twice:
  assumes "writable s" "status (fst (delete_song i s)) = 200"
  shows "delete_song i (snd (delete_song i s))
           = (\<lparr>status = 404, data = None\<rparr>, snd (delete_song i s))"
proof -
  obtain xs s1 where rd: "read_data s = (xs, s1)" by (cases "read_data s")
  from read_data_writable [of s] rd assms(1) have w1: "writable s1" by simp
  from rd assms(2) obtain kept where rm: "remove_song_id i xs = Some kept"
    and s2: "snd (delete_song i s) = write_data (PDict [(''songs'', PList kept)]) s1"
    by (auto simp: delete_song_def split: option.splits)
  let ?s2 = "write_data (PDict [(''songs'', PList kept)]) s1"
  show ?thesis
  proof (cases "json_ok (PDict [(''songs'', PList kept)])")
    case True
    with w1 have "db ?s2 = Json (PDict [(''songs'', PList kept)])"
      by (simp add: write_data_def)
    from read_data_songs [OF this] remove_song_id_first [OF rm]
    have "delete_song i ?s2 = (\<lparr>status = 404, data = None\<rparr>, ?s2)"
      by (simp add: delete_song_def)
    then show ?thesis by (simp only: s2)
  next
    case False
    with w1 have "db ?s2 = Corrupt"
      by (simp add: write_data_def)
    from read_data_corrupt [OF this]
    have "delete_song i ?s2 = (\<lparr>status = 404, data = None\<rparr>, ?s2)"
      by (simp add: delete_song_def)
    then show ?thesis by (simp only: s2)
  qed
qed


section \<open>Deleting a record\<close>

lemma json_ok_metadata: "json_ok (db_get_metadata L now)"
  by (simp add: db_get_metadata_def)

lemma db_read_data_doc:
  assumes "db s = Json (PDict d)" "py_iter (data_songs d) = Some xs"
  shows "\<exists>d2. db_read_data L now s = (Inr d2, s) \<and> data_songs d2 = data_songs d
           \<and> dget d2 ''metadata''
               = (case dget d ''metadata'' of None \<Rightarrow> Some (db_get_metadata L now)
                  | Some m \<Rightarrow> Some m)
           \<and> (json_ok (PDict d) \<longrightarrow> json_ok (PDict d2))"
proof -
  define d1 where "d1 = (if dget d ''songs'' = None then dset d ''songs'' (PList []) else d)"
  define d2 where "d2 = (if dget d1 ''metadata'' = None
                         then dset d1 ''metadata'' (db_get_metadata L now) else d1)"
  have ds: "data_songs d2 = data_songs d"
    by (auto simp: d1_def d2_def data_songs_def dget_dset)
  from py_iter_len [OF assms(2)] have pl: "py_len (data_songs d2) \<noteq> None"
    by (simp add: ds)
  have "db_read_data L now s
          = (if py_len (data_songs d2) = None then (Inl DatabaseReadError, s) else (Inr d2, s))"
    unfolding db_read_data_def d1_def d2_def Let_def using assms(1) by simp
  with pl have rd: "db_read_data L now s = (Inr d2, s)"
    by simp
  have md: "dget d2 ''metadata''
              = (case dget d ''metadata'' of None \<Rightarrow> Some (db_get_metadata L now)
                 | Some m \<Rightarrow> Some m)"
    by (auto simp: d1_def d2_def dget_dset split: option.splits)
  have j: "json_ok (PDict d) \<longrightarrow> json_ok (PDict d2)"
  proof
    assume jd: "json_ok (PDict d)"
    have "json_ok (PDict (dset d ''songs'' (PList [])))"
      by (rule json_ok_dset [OF jd]) simp
    with jd have j1: "json_ok (PDict d1)" by (simp only: d1_def if_split) simp
    from json_ok_dset [OF j1 json_ok_metadata]
    have "json_ok (PDict (dset d1 ''metadata'' (db_get_metadata L now)))" .
    with j1 show "json_ok (PDict d2)" by (simp only: d2_def if_split) simp
  qed
  from rd ds md j show ?thesis by blast
qed

lemma remove_song_id_all:
  assumes "\<forall>x\<in>set xs. elem_get x ''id'' PNone \<noteq> None"
  shows "remove_song_id i xs
           = Some (filter (\<lambda>song. \<not> py_eq_int (the (elem_get song ''id'' PNone)) i) xs)"
  using those_map_all [OF assms] by (simp add: remove_song_id_def)

lemma db_delete_song_no_match:
  assumes "db s = Json (PDict d)" "py_iter (data_songs d) = Some xs"
    "\<forall>x\<in>set xs. \<exists>v. elem_get x ''id'' PNone = Some v \<and> \<not> py_eq_int v i"
  shows "db_delete_song L now i s = (Inr False, s)"
proof -
  from assms(3) have a: "\<forall>x\<in>set xs. elem_get x ''id'' PNone \<noteq> None" by auto
  from assms(3) have "filter (\<lambda>song. \<not> py_eq_int (the (elem_get song ''id'' PNone)) i) xs = xs"
    by (auto simp: filter_id_conv)
  with remove_song_id_all [OF a, of i] have rm: "remove_song_id i xs = Some xs" by simp
  from db_read_data_doc [OF assms(1,2), of L now] obtain d2 where
    "db_read_data L now s = (Inr d2, s)" "data_songs d2 = data_songs d"
    by blast
  with rm assms(2) show ?thesis
    by (simp add: db_delete_song_def)
qed

lemma read_data_doc:
  assumes "db s = Json (PDict d)" "py_iter (data_songs d) = Some xs"
  shows "read_data s = (xs, s)"
  using assms by (simp add: read_data_def ensure_db_exists_def)

lemma delete_song_no_match:
  assumes "db s = Json (PDict d)" "py_iter (data_songs d) = Some xs"
    "\<forall>x\<in>set xs. \<exists>v. elem_get x ''id'' PNone = Some v \<and> \<not> py_eq_int v i"
  shows "delete_song i s = (\<lparr>status = 404, data = None\<rparr>, s)"
  using read_data_doc [OF assms(1,2)] first_with_id_none [OF assms(3)]
  by (simp add: delete_song_def)

lemma db_delete_song_False_no_match:
  assumes "db s = Json (PDict d)" "py_iter (data_songs d) = Some xs"
    "db_delete_song L now i s = (Inr False, s1)"
  shows "\<forall>x\<in>set xs. \<exists>v. elem_get x ''id'' PNone = Some v \<and> \<not> py_eq_int v i"
proof -
  from db_read_data_doc [OF assms(1,2), of L now] obtain d2 where
    "db_read_data L now s = (Inr d2, s)" "data_songs d2 = data_songs d"
    by blast
  with assms(2,3)
  obtain kept where rm: "remove_song_id i xs = Some kept" and len: "length kept = length xs"
    by (auto simp: db_delete_song_def split: option.splits if_splits prod.splits sum.splits)
  from remove_song_id_Some [OF rm]
  have k: "kept = filter (\<lambda>song. \<not> py_eq_int (the (elem_get song ''id'' PNone)) i) xs"
    and a: "\<forall>x\<in>set xs. elem_get x ''id'' PNone \<noteq> None" by auto
  have "\<not> py_eq_int (the (elem_get x ''id'' PNone)) i" if "x \<in> set xs" for x
  proof
    assume "py_eq_int (the (elem_get x ''id'' PNone)) i"
    with that have "length (filter (\<lambda>song. \<not> py_eq_int (the (elem_get song ''id'' PNone)) i) xs)
                      < length xs"
      by (intro length_filter_less [of x]) auto
    with k len show False by simp
  qed
  with a show ?thesis by fastforce
qed

lemma first_with_id_find:
  "\<forall>x\<in>set xs. elem_get x ''id'' PNone \<noteq> None \<Longrightarrow>
     first_with_id i xs = Some (find (\<lambda>x. py_eq_int (the (elem_get x ''id'' PNone)) i) xs)"
  by (induction xs) auto

lemma first_with_id_Some_None:
  "first_with_id i xs = Some None \<Longrightarrow>
     \<forall>x\<in>set xs. \<exists>v. elem_get x ''id'' PNone = Some v \<and> \<not> py_eq_int v i"
  by (induction xs) (auto split: option.splits if_splits)

lemma delete_song_404_no_match:
  assumes "db s = Json (PDict d)" "py_iter (data_songs d) = Some xs"
    "status (fst (delete_song i s)) = 404"
  shows "\<forall>x\<in>set xs. \<exists>v. elem_get x ''id'' PNone = Some v \<and> \<not> py_eq_int v i"
proof -
  from read_data_doc [OF assms(1,2)] assms(3) have "first_with_id i xs = Some None"
    by (auto simp: delete_song_def split: option.splits)
  then show ?thesis by (rule first_with_id_Some_None)
qed

lemma delete_song_match:
  assumes "db s = Json (PDict d)" "py_iter (data_songs d) = Some xs"
    "\<forall>x\<in>set xs. \<exists>v. elem_get x ''id'' PNone = Some v"
    "\<exists>x\<in>set xs. \<exists>v. elem_get x ''id'' PNone = Some v \<and> py_eq_int v i"
  shows "delete_song i s
           = (\<lparr>status = 200, data = None\<rparr>,
              write_data (PDict [(''songs'',
                PList (filter (\<lambda>song. \<not> py_eq_int (the (elem_get song ''id'' PNone)) i) xs))]) s)"
proof -
  from assms(3) have a: "\<forall>x\<in>set xs. elem_get x ''id'' PNone \<noteq> None" by auto
  from assms(4) have "\<exists>x\<in>set xs. py_eq_int (the (elem_get x ''id'' PNone)) i"
    by (metis option.sel)
  then have "find (\<lambda>x. py_eq_int (the (elem_get x ''id'' PNone)) i) xs \<noteq> None"
    by (auto simp: find_None_iff)
  with first_with_id_find [OF a, of i] obtain song where "first_with_id i xs = Some (Some song)"
    by auto
  with read_data_doc [OF assms(1,2)] remove_song_id_all [OF a, of i] show ?thesis
    by (simp add: delete_song_def)
qed

lemma db_delete_song_match:
  assumes "db s = Json (PDict d)" "py_iter (data_songs d) = Some xs"
    "\<forall>x\<in>set xs. \<exists>v. elem_get x ''id'' PNone = Some v"
    "\<exists>x\<in>set xs. \<exists>v. elem_get x ''id'' PNone = Some v \<and> py_eq_int v i"
    "writable s" "json_ok (PDict d)"
    "dget d ''metadata'' = None \<or> (\<exists>m. dget d ''metadata'' = Some (PDict m))"
  shows "fst (db_delete_song L now i s) = Inr True"
proof -
  let ?kept = "filter (\<lambda>song. \<not> py_eq_int (the (elem_get song ''id'' PNone)) i) xs"
  from db_read_data_doc [OF assms(1,2), of L now] assms(6) obtain d2 where
    rd: "db_read_data L now s = (Inr d2, s)" and ds: "data_songs d2 = data_songs d"
    and md: "dget d2 ''metadata''
               = (case dget d ''metadata'' of None \<Rightarrow> Some (db_get_metadata L now)
                  | Some m \<Rightarrow> Some m)"
    and j2: "json_ok (PDict d2)"
    by blast
  from assms(3) have a: "\<forall>x\<in>set xs. elem_get x ''id'' PNone \<noteq> None" by auto
  from assms(4) obtain x where "x \<in> set xs" "py_eq_int (the (elem_get x ''id'' PNone)) i"
    by (metis option.sel)
  then have "length ?kept < length xs"
    by (intro length_filter_less [of x]) auto
  then have ne: "length ?kept \<noteq> length xs" by simp
  have "json_ok (data_songs d)"
  proof (cases "dget d ''songs''")
    case None
    then show ?thesis by (simp add: data_songs_def)
  next
    case (Some v)
    from json_ok_dget [OF assms(6) Some] Some show ?thesis by (simp add: data_songs_def)
  qed
  from json_ok_iter [OF this assms(2)] have "list_all json_ok ?kept"
    by (auto simp: list_all_iff)
  then have jk: "json_ok (PList ?kept)" by simp
  let ?d3 = "dset d2 ''songs'' (PList ?kept)"
  from j2 jk have j3: "json_ok (PDict ?d3)" by (rule json_ok_dset)
  from assms(7) md have "\<exists>m. dget d2 ''metadata'' = Some (PDict m)"
    by (auto simp: db_get_metadata_def)
  then obtain m where m: "dget ?d3 ''metadata'' = Some (PDict m)"
    by (auto simp: dget_dset)
  from json_ok_dget [OF j3 m] have jm: "json_ok (PDict m)" .
  have w: "writable (db_create_backup s)" using assms(5) by (simp add: db_create_backup_fields)
  have "json_ok (PDict (dset ?d3 ''metadata''
          (PDict (dset (dset m ''last_updated'' (PStr now)) ''total_records''
                    (PInt (int (length ?kept)))))))"
    by (intro json_ok_dset j3 jm) simp_all
  with m w have "fst (db_write_data L now (PDict ?d3) s) = Inr ()"
    by (simp add: db_write_data_def Let_def data_songs_dset_songs py_len_def)
  with rd ds assms(2) remove_song_id_all [OF a, of i] ne
  show ?thesis
    by (auto simp: db_delete_song_def split: prod.splits sum.splits)
qed

text \<open>
  Claim C5, as amended. The backing file holds a document whose songs \<open>xs\<close> can be
  iterated. If every element is a dictionary whose \<^verbatim>\<open>"id"\<close> differs from the id, the
  delete of both variants returns not-found (\<^verbatim>\<open>False\<close>, 404) and leaves the file
  system as it was; conversely, not-found is returned on such a file only when no element
  has the id; and whenever the file exists, a not-found answer comes with the file system
  untouched. If every element is a dictionary, one of them has the id, the store takes
  writes and the document is one \<^verbatim>\<open>json.dump\<close> accepts, with metadata absent or a
  dictionary, then the professional delete returns \<^verbatim>\<open>True\<close> and the next one
  \<^verbatim>\<open>False\<close> without a write, and the minimal delete answers 200 and the next one 404.
  The last two conjuncts say the same of any delete that succeeded, whatever the file held.
\<close>

theorem delete_not_found_then_twice:
  "(db s = Json (PDict d) \<and> py_iter (data_songs d) = Some xs
      \<and> (\<forall>x\<in>set xs. \<exists>v. elem_get x ''id'' PNone = Some v \<and> \<not> py_eq_int v i)
    \<longrightarrow> db_delete_song L now i s = (Inr False, s)
        \<and> delete_song i s = (\<lparr>status = 404, data = None\<rparr>, s))
   \<and> (db s = Json (PDict d) \<and> py_iter (data_songs d) = Some xs
        \<and> (fst (db_delete_song L now i s) = Inr False \<or> status (fst (delete_song i s)) = 404)
      \<longrightarrow> (\<forall>x\<in>set xs. \<exists>v. elem_get x ''id'' PNone = Some v \<and> \<not> py_eq_int v i))
   \<and> (db s \<noteq> Absent \<and> db_delete_song L now i s = (Inr False, s1) \<longrightarrow> s1 = s)
   \<and> (db s \<noteq> Absent \<and> status (fst (delete_song i s)) = 404 \<longrightarrow> snd (delete_song i s) = s)
   \<and> (db s = Json (PDict d) \<and> py_iter (data_songs d) = Some xs
        \<and> (\<forall>x\<in>set xs. \<exists>v. elem_get x ''id'' PNone = Some v)
        \<and> (\<exists>x\<in>set xs. \<exists>v. elem_get x ''id'' PNone = Some v \<and> py_eq_int v i)
        \<and> writable s \<and> json_ok (PDict d)
        \<and> (dget d ''metadata'' = None \<or> (\<exists>m. dget d ''metadata'' = Some (PDict m)))
      \<longrightarrow> fst (db_delete_song L now i s) = Inr True
          \<and> db_delete_song L now' i (snd (db_delete_song L now i s))
              = (Inr False, snd (db_delete_song L now i s))
          \<and> status (fst (delete_song i s)) = 200
          \<and> delete_song i (snd (delete_song i s))
              = (\<lparr>status = 404, data = None\<rparr>, snd (delete_song i s)))
   \<and> (db_delete_song L now i s = (Inr True, s2)
        \<longrightarrow> db_delete_song L now' i s2 = (Inr False, s2))
   \<and> (writable s \<and> status (fst (delete_song i s)) = 200
        \<longrightarrow> delete_song i (snd (delete_song i s))
              = (\<lparr>status = 404, data = None\<rparr>, snd (delete_song i s)))"
proof -
  have 1: "db s = Json (PDict d) \<and> py_iter (data_songs d) = Some xs
      \<and> (\<forall>x\<in>set xs. \<exists>v. elem_get x ''id'' PNone = Some v \<and> \<not> py_eq_int v i)
    \<longrightarrow> db_delete_song L now i s = (Inr False, s)
        \<and> delete_song i s = (\<lparr>status = 404, data = None\<rparr>, s)"
    using db_delete_song_no_match [of s d xs i L now] delete_song_no_match [of s d xs i]
    by blast
  have 2: "db s = Json (PDict d) \<and> py_iter (data_songs d) = Some xs
        \<and> (fst (db_delete_song L now i s) = Inr False \<or> status (fst (delete_song i s)) = 404)
      \<longrightarrow> (\<forall>x\<in>set xs. \<exists>v. elem_get x ''id'' PNone = Some v \<and> \<not> py_eq_int v i)"
    using db_delete_song_False_no_match [of s d xs L now i "snd (db_delete_song L now i s)"]
      delete_song_404_no_match [of s d xs i]
    by (metis prod.collapse)
  have 3: "db s \<noteq> Absent \<and> db_delete_song L now i s = (Inr False, s1) \<longrightarrow> s1 = s"
    using db_delete_song_False [of L now i s s1] by blast
  have 4: "db s \<noteq> Absent \<and> status (fst (delete_song i s)) = 404 \<longrightarrow> snd (delete_song i s) = s"
    using delete_song_404 [of s i] by blast
  have 6: "db_delete_song L now i s = (Inr True, s2)
        \<longrightarrow> db_delete_song L now' i s2 = (Inr False, s2)"
    using db_delete_song_twice [of L now i s s2 now'] by blast
  have 7: "writable s \<and> status (fst (delete_song i s)) = 200
        \<longrightarrow> delete_song i (snd (delete_song i s))
              = (\<lparr>status = 404, data = None\<rparr>, snd (delete_song i s))"
    using delete_song_twice [of s i] by blast
  have 5: "db s = Json (PDict d) \<and> py_iter (data_songs d) = Some xs
        \<and> (\<forall>x\<in>set xs. \<exists>v. elem_get x ''id'' PNone = Some v)
        \<and> (\<exists>x\<in>set xs. \<exists>v. elem_get x ''id'' PNone = Some v \<and> py_eq_int v i)
        \<and> writable s \<and> json_ok (PDict d)
        \<and> (dget d ''metadata'' = None \<or> (\<exists>m. dget d ''metadata'' = Some (PDict m)))
      \<longrightarrow> fst (db_delete_song L now i s) = Inr True
          \<and> db_delete_song L now' i (snd (db_delete_song L now i s))
              = (Inr False, snd (db_delete_song L now i s))
          \<and> status (fst (delete_song i s)) = 200
          \<and> delete_song i (snd (delete_song i s))
              = (\<lparr>status = 404, data = None\<rparr>, snd (delete_song i s))"
  proof
    assume h: "db s = Json (PDict d) \<and> py_iter (data_songs d) = Some xs
        \<and> (\<forall>x\<in>set xs. \<exists>v. elem_get x ''id'' PNone = Some v)
        \<and> (\<exists>x\<in>set xs. \<exists>v. elem_get x ''id'' PNone = Some v \<and> py_eq_int v i)
        \<and> writable s \<and> json_ok (PDict d)
        \<and> (dget d ''metadata'' = None \<or> (\<exists>m. dget d ''metadata'' = Some (PDict m)))"
    then have t: "fst (db_delete_song L now i s) = Inr True"
      using db_delete_song_match [of s d xs i L now] by blast
    then have "db_delete_song L now i s = (Inr True, snd (db_delete_song L now i s))"
      by (simp add: prod_eq_iff)
    from db_delete_song_twice [OF this]
    have t2: "db_delete_song L now' i (snd (db_delete_song L now i s))
              = (Inr False, snd (db_delete_song L now i s))" .
    from h have m: "status (fst (delete_song i s)) = 200"
      using delete_song_match [of s d xs i] by simp
    from h have "writable s" by blast
    from delete_song_twice [OF this m] t t2 m
    show "fst (db_delete_song L now i s) = Inr True
          \<and> db_delete_song L now' i (snd (db_delete_song L now i s))
              = (Inr False, snd (db_delete_song L now i s))
          \<and> status (fst (delete_song i s)) = 200
          \<and> delete_song i (snd (delete_song i s))
              = (\<lparr>status = 404, data = None\<rparr>, snd (delete_song i s))"
      by (intro conjI) assumption+
  qed
  from 1 2 3 4 5 6 7 show ?thesis
    by (intro conjI) assumption+
qed

lemma sample_delete_2: "fst (db_delete_song test_lib clock0 2 sample_fs) = Inr True"
  by code_simp

lemma sample_song_id: "elem_get (sample_song n t a al y) ''id'' PNone = Some (PInt n)"
  by (simp add: sample_song_def sample_record_def elem_get_def dget_def)

lemma py_eq_int_PInt: "py_eq_int (PInt n) i = (n = i)"
  by (simp add: py_eq_int_def as_int_def)

lemma sample_fs_doc:
  "db sample_fs = Json (PDict [(''songs'',
      PList [sample_song 1 ''Bohemian Rhapsody'' ''Queen'' ''A Night at the Opera'' 1975,
             sample_song 2 ''Imagine'' ''John Lennon'' ''Imagine'' 1971,
             sample_song 3 ''Yesterday'' ''The Beatles'' ''Help!'' 1965])])"
  "py_iter (data_songs [(''songs'',
      PList [sample_song 1 ''Bohemian Rhapsody'' ''Queen'' ''A Night at the Opera'' 1975,
             sample_song 2 ''Imagine'' ''John Lennon'' ''Imagine'' 1971,
             sample_song 3 ''Yesterday'' ''The Beatles'' ''Help!'' 1965])])
     = Some [sample_song 1 ''Bohemian Rhapsody'' ''Queen'' ''A Night at the Opera'' 1975,
             sample_song 2 ''Imagine'' ''John Lennon'' ''Imagine'' 1971,
             sample_song 3 ''Yesterday'' ''The Beatles'' ''Help!'' 1965]"
  "writable sample_fs"
  "json_ok (PDict [(''songs'',
      PList [sample_song 1 ''Bohemian Rhapsody'' ''Queen'' ''A Night at the Opera'' 1975,
             sample_song 2 ''Imagine'' ''John Lennon'' ''Imagine'' 1971,
             sample_song 3 ''Yesterday'' ''The Beatles'' ''Help!'' 1965])])"
  "dget [(''songs'',
      PList [sample_song 1 ''Bohemian Rhapsody'' ''Queen'' ''A Night at the Opera'' 1975,
             sample_song 2 ''Imagine'' ''John Lennon'' ''Imagine'' 1971,
             sample_song 3 ''Yesterday'' ''The Beatles'' ''Help!'' 1965])] ''metadata'' = None"
  by code_simp+

text \<open>
  The sample store: the id 999 is not found and nothing changes; the id 2 is deleted, and
  the second delete of it is not found.
\<close>

theorem delete_not_found_then_twice_witness:
  "db_delete_song test_lib clock0 999 sample_fs = (Inr False, sample_fs)
   \<and> delete_song 999 sample_fs = (\<lparr>status = 404, data = None\<rparr>, sample_fs)
   \<and> fst (db_delete_song test_lib clock0 2 sample_fs) = Inr True
   \<and> db_delete_song test_lib clock1 2 (snd (db_delete_song test_lib clock0 2 sample_fs))
       = (Inr False, snd (db_delete_song test_lib clock0 2 sample_fs))
   \<and> status (fst (delete_song 2 sample_fs)) = 200
   \<and> delete_song 2 (snd (delete_song 2 sample_fs))
       = (\<lparr>status = 404, data = None\<rparr>, snd (delete_song 2 sample_fs))"
proof -
  let ?xs = "[sample_song 1 ''Bohemian Rhapsody'' ''Queen'' ''A Night at the Opera'' 1975,
              sample_song 2 ''Imagine'' ''John Lennon'' ''Imagine'' 1971,
              sample_song 3 ''Yesterday'' ''The Beatles'' ''Help!'' 1965]"
  let ?d = "[(''songs'', PList ?xs)]"
  note t = delete_not_found_then_twice
             [where s = sample_fs and d = ?d and xs = ?xs and L = test_lib and now = clock0
                and now' = clock1]
  have n: "\<forall>x\<in>set ?xs. \<exists>v. elem_get x ''id'' PNone = Some v \<and> \<not> py_eq_int v 999"
    by (simp add: sample_song_id py_eq_int_PInt)
  have a: "\<forall>x\<in>set ?xs. \<exists>v. elem_get x ''id'' PNone = Some v"
    by (simp add: sample_song_id)
  have m: "\<exists>x\<in>set ?xs. \<exists>v. elem_get x ''id'' PNone = Some v \<and> py_eq_int v 2"
    by (simp add: sample_song_id py_eq_int_PInt)
  from t [where i = 999, THEN conjunct1] sample_fs_doc(1,2) n
  have 1: "db_delete_song test_lib clock0 999 sample_fs = (Inr False, sample_fs)
           \<and> delete_song 999 sample_fs = (\<lparr>status = 404, data = None\<rparr>, sample_fs)"
    by blast
  from t [where i = 2, THEN conjunct2, THEN conjunct2, THEN conjunct2, THEN conjunct2,
          THEN conjunct1] sample_fs_doc a m
  have 2: "fst (db_delete_song test_lib clock0 2 sample_fs) = Inr True
           \<and> db_delete_song test_lib clock1 2 (snd (db_delete_song test_lib clock0 2 sample_fs))
               = (Inr False, snd (db_delete_song test_lib clock0 2 sample_fs))
           \<and> status (fst (delete_song 2 sample_fs)) = 200
           \<and> delete_song 2 (snd (delete_song 2 sample_fs))
               = (\<lparr>status = 404, data = None\<rparr>, snd (delete_song 2 sample_fs))"
    by blast
  from 1 2 show ?thesis by blast
qed

text \<open>
  Against C5 as stated: the minimal variant on a store that takes no write. The first
  delete answers 200 though nothing was written, and so does the second.
\<close>

theorem minimal_delete_twice_counterexample:
  "status (fst (delete_song 2 readonly_fs)) = 200
   \<and> status (fst (delete_song 2 (snd (delete_song 2 readonly_fs)))) = 200"
  by code_simp


section \<open>Metadata of a written document\<close>

text \<open>
  Claim C6, as amended. Whatever document \<^verbatim>\<open>_write_data\<close> of the professional variant
  is given, when it succeeds the file holds a document with the same songs whose metadata
  has \<^verbatim>\<open>total_records\<close> equal to the length of the songs and \<^verbatim>\<open>last_updated\<close> equal
  to the clock reading of the write.
\<close>

theorem db_write_data_stamps_metadata:
  assumes "db_write_data L now (PDict d) s = (Inr u, s1)"
  shows "\<exists>doc m n. db s1 = Json (PDict doc)
           \<and> data_songs doc = data_songs d
           \<and> py_len (data_songs doc) = Some n
           \<and> dget doc ''metadata'' = Some (PDict m)
           \<and> dget m ''total_records'' = Some (PInt (int n))
           \<and> dget m ''last_updated'' = Some (PStr now)"
proof -
  from db_write_data_ok [OF assms] obtain doc m n where
    s1: "s1 = (db_create_backup s)\<lparr>db := Json (PDict doc)\<rparr>"
    and md: "dget doc ''metadata'' = Some (PDict m)"
    and lu: "dget m ''last_updated'' = Some (PStr now)"
    and tr: "dget m ''total_records'' = Some (PInt (int n))"
    and n: "py_len (data_songs d) = Some n"
    and fr: "\<forall>k. k \<noteq> ''metadata'' \<longrightarrow> dget doc k = dget d k"
    by auto
  from fr have "data_songs doc = data_songs d"
    by (simp add: data_songs_def)
  with s1 md lu tr n show ?thesis by auto
qed

text \<open>The document with \<^verbatim>\<open>total_records = 99\<close> and two songs is written with 2.\<close>

lemma stale_write: "fst (db_write_data test_lib clock0 (PDict stale_document) sample_fs) = Inr ()"
  by code_simp

lemma stale_len: "py_len (data_songs stale_document) = Some 2"
  by code_simp

theorem db_write_data_stamps_metadata_witness:
  "\<exists>doc m. db (snd (db_write_data test_lib clock0 (PDict stale_document) sample_fs)) = Json (PDict doc)
      \<and> py_len (data_songs doc) = Some 2
      \<and> dget doc ''metadata'' = Some (PDict m)
      \<and> dget m ''total_records'' = Some (PInt 2)
      \<and> dget m ''last_updated'' = Some (PStr clock0)"
proof -
  let ?s1 = "snd (db_write_data test_lib clock0 (PDict stale_document) sample_fs)"
  have "db_write_data test_lib clock0 (PDict stale_document) sample_fs = (Inr (), ?s1)"
    using stale_write by (simp add: prod_eq_iff)
  from db_write_data_stamps_metadata [OF this] stale_len show ?thesis
    by auto
qed

text \<open>
  Against C6 as stated: \<^verbatim>\<open>write_data\<close> of the minimal variant persists the document
  it is given, and the routes give it \<^verbatim>\<open>{"songs": [...]}\<close>. After a delete on a file
  that held metadata, the file holds the remaining song and no metadata.
\<close>

theorem minimal_write_keeps_no_metadata:
  "db (snd (delete_song 1 (sample_fs\<lparr>db := Json (PDict stale_document)\<rparr>)))
     = Json (PDict [(''songs'', PList [sample_song 2 ''Yesterday'' ''The Beatles'' ''Help!'' 1965])])
   \<and> dget [(''songs'', PList [sample_song 2 ''Yesterday'' ''The Beatles'' ''Help!'' 1965])]
        ''metadata'' = None
   \<and> status (fst (delete_song 1 (sample_fs\<lparr>db := Json (PDict stale_document)\<rparr>))) = 200"
  by code_simp


section \<open>Write failures\<close>

lemma db_write_data_dichotomy:
  "(fst (db_write_data L now dat s) = Inl DatabaseWriteError
      \<and> db (snd (db_write_data L now dat s)) = db s)
   \<or> (fst (db_write_data L now dat s) = Inr () \<and> writable s
        \<and> (\<exists>doc. db (snd (db_write_data L now dat s)) = Json (PDict doc) \<and> json_ok (PDict doc)))"
proof (cases "db_write_data L now dat s")
  case (Pair r s1)
  show ?thesis
  proof (cases r)
    case (Inl e)
    with Pair db_write_data_fail [of L now dat s e s1] show ?thesis
      by (simp add: db_create_backup_fields)
  next
    case (Inr u)
    with Pair db_write_data_ok [of L now dat s u s1] show ?thesis
      by auto
  qed
qed

lemma db_create_song_unwritable:
  assumes "\<not> writable s"
  shows "(\<exists>e. fst (db_create_song L now u sd s) = Inl e)
         \<and> db (snd (db_create_song L now u sd s)) = db s"
proof -
  obtain r s0 where rd: "db_read_data L now s = (r, s0)"
    by (cases "db_read_data L now s")
  from db_read_data_fields [OF rd] assms have "db s0 = db s" by simp
  with rd db_create_song_db [of L now u sd s] db_create_song_fails [of L now u sd s]
  show ?thesis by auto
qed

lemma db_update_song_unwritable:
  assumes "\<not> writable s"
  shows "(\<exists>e. fst (db_update_song L now i su s) = Inl e)
         \<and> db (snd (db_update_song L now i su s)) = db s"
proof -
  obtain r s0 where rd: "db_read_data L now s = (r, s0)"
    by (cases "db_read_data L now s")
  from db_read_data_fields [OF rd] assms have "db s0 = db s" by simp
  with rd db_update_song_db [of L now i su s] db_update_song_fails [of L now i su s]
  show ?thesis by auto
qed

text \<open>
  Claim C2, as amended, for the professional variant. \<^verbatim>\<open>_write_data\<close> either raises
  \<^verbatim>\<open>DatabaseWriteError\<close> and leaves the database file as it was, or succeeds on a
  writable store and has replaced the file. On a store that takes no write, no create,
  update or delete reports success and the database file is unchanged; a delete that
  matches a record raises \<^verbatim>\<open>DatabaseWriteError\<close>. A delete that returns \<^verbatim>\<open>True\<close>
  has replaced the file by a different document.
\<close>

theorem professional_write_failure_surfaces:
  "((fst (db_write_data L now dat s) = Inl DatabaseWriteError
       \<and> db (snd (db_write_data L now dat s)) = db s)
    \<or> (fst (db_write_data L now dat s) = Inr () \<and> writable s
         \<and> (\<exists>doc. db (snd (db_write_data L now dat s)) = Json (PDict doc))))
   \<and> (\<not> writable s \<longrightarrow>
         fst (db_write_data L now dat s) = Inl DatabaseWriteError
         \<and> (\<exists>e. fst (db_create_song L now u sd s) = Inl e)
         \<and> db (snd (db_create_song L now u sd s)) = db s
         \<and> (\<exists>e. fst (db_update_song L now i su s) = Inl e)
         \<and> db (snd (db_update_song L now i su s)) = db s
         \<and> fst (db_delete_song L now i s) \<noteq> Inr True
         \<and> db (snd (db_delete_song L now i s)) = db s)
   \<and> (\<not> writable s \<and> db_read_data L now s = (Inr d, s1) \<and> py_iter (data_songs d) = Some xs
        \<and> remove_song_id i xs = Some kept \<and> length kept \<noteq> length xs
        \<longrightarrow> fst (db_delete_song L now i s) = Inl DatabaseWriteError)
   \<and> (db_delete_song L now i s = (Inr True, s2)
        \<longrightarrow> writable s \<and> (\<exists>doc. db s2 = Json (PDict doc) \<and> db s2 \<noteq> db s))"
proof -
  have 1: "(fst (db_write_data L now dat s) = Inl DatabaseWriteError
       \<and> db (snd (db_write_data L now dat s)) = db s)
    \<or> (fst (db_write_data L now dat s) = Inr () \<and> writable s
         \<and> (\<exists>doc. db (snd (db_write_data L now dat s)) = Json (PDict doc)))"
    using db_write_data_dichotomy [of L now dat s] by blast
  have 2: "\<not> writable s \<longrightarrow> fst (db_write_data L now dat s) = Inl DatabaseWriteError"
    by (simp add: db_write_data_unwritable)
  have 3: "db_delete_song L now i s = (Inr True, s2)
        \<longrightarrow> writable s \<and> (\<exists>doc. db s2 = Json (PDict doc) \<and> db s2 \<noteq> db s)"
  proof
    assume a: "db_delete_song L now i s = (Inr True, s2)"
    from db_delete_song_True [OF a] obtain d s1 xs kept doc where
      rd: "db_read_data L now s = (Inr d, s1)" and it: "py_iter (data_songs d) = Some xs"
      and rm: "remove_song_id i xs = Some kept" and ne: "length kept \<noteq> length xs"
      and w: "writable s" and s2: "s2 = (db_create_backup s1)\<lparr>db := Json (PDict doc)\<rparr>"
      and sg: "dget doc ''songs'' = Some (PList kept)"
      by blast
    have "db s \<noteq> Json (PDict doc)"
    proof
      assume e: "db s = Json (PDict doc)"
      then have "db s \<noteq> Absent" by simp
      from db_read_data_state [OF rd this] have "s1 = s" .
      with rd e sg have "data_songs d = PList kept"
        by (auto simp: db_read_data_def Let_def data_songs_def dget_dset split: if_splits)
      with it ne show False by (simp add: py_iter_def)
    qed
    with w s2 show "writable s \<and> (\<exists>doc. db s2 = Json (PDict doc) \<and> db s2 \<noteq> db s)"
      by auto
  qed
  from 1 2 3 db_create_song_unwritable [of s L now u sd] db_update_song_unwritable [of s L now i su]
    db_delete_song_unwritable [of s L now i]
    db_delete_song_unwritable_existing [of s L now d s1 xs i kept]
  show ?thesis by blast
qed

lemma readonly_facts:
  "\<not> writable readonly_fs"
  "fst (db_read_data test_lib clock0 readonly_fs)
     = Inr (projr (fst (db_read_data test_lib clock0 readonly_fs)))"
  "py_iter (data_songs (projr (fst (db_read_data test_lib clock0 readonly_fs))))
     = Some (the (py_iter (data_songs (projr (fst (db_read_data test_lib clock0 readonly_fs))))))"
  "remove_song_id 2 (the (py_iter (data_songs (projr (fst (db_read_data test_lib clock0 readonly_fs))))))
     = Some (the (remove_song_id 2
         (the (py_iter (data_songs (projr (fst (db_read_data test_lib clock0 readonly_fs))))))))"
  "length (the (remove_song_id 2
         (the (py_iter (data_songs (projr (fst (db_read_data test_lib clock0 readonly_fs))))))))
     \<noteq> length (the (py_iter (data_songs (projr (fst (db_read_data test_lib clock0 readonly_fs))))))"
  by code_simp+

theorem professional_write_failure_surfaces_witness:
  "fst (db_write_data test_lib clock0 sample_songs_data readonly_fs) = Inl DatabaseWriteError
   \<and> fst (db_delete_song test_lib clock0 2 readonly_fs) = Inl DatabaseWriteError
   \<and> db (snd (db_delete_song test_lib clock0 2 readonly_fs)) = db readonly_fs
   \<and> fst (db_delete_song test_lib clock0 2 sample_fs) = Inr True
   \<and> db (snd (db_delete_song test_lib clock0 2 sample_fs)) \<noteq> db sample_fs"
proof -
  let ?d = "projr (fst (db_read_data test_lib clock0 readonly_fs))"
  let ?s1 = "snd (db_read_data test_lib clock0 readonly_fs)"
  let ?xs = "the (py_iter (data_songs ?d))"
  let ?kept = "the (remove_song_id 2 ?xs)"
  let ?s2 = "snd (db_delete_song test_lib clock0 2 sample_fs)"
  have rd: "db_read_data test_lib clock0 readonly_fs = (Inr ?d, ?s1)"
    using readonly_facts(2) by (simp add: prod_eq_iff)
  from professional_write_failure_surfaces
         [of test_lib clock0 sample_songs_data readonly_fs "''u''" sample_create 2 album_update
             ?d ?s1 ?xs ?kept ?s2]
    readonly_facts rd
  have a: "fst (db_write_data test_lib clock0 sample_songs_data readonly_fs) = Inl DatabaseWriteError
     \<and> fst (db_delete_song test_lib clock0 2 readonly_fs) = Inl DatabaseWriteError
     \<and> db (snd (db_delete_song test_lib clock0 2 readonly_fs)) = db readonly_fs"
    by blast
  have t: "db_delete_song test_lib clock0 2 sample_fs = (Inr True, ?s2)"
    using sample_delete_2 by (simp add: prod_eq_iff)
  from professional_write_failure_surfaces
         [of test_lib clock0 sample_songs_data sample_fs "''u''" sample_create 2 album_update
             ?d ?s1 ?xs ?kept ?s2] t
  have b: "db ?s2 \<noteq> db sample_fs" by blast
  from a b sample_delete_2 show ?thesis by blast
qed

text \<open>
  Against C2 as stated: on a store that takes no write the minimal variant answers 201 to
  a create and 200 to a delete, and the file system is as before.
\<close>

theorem minimal_write_failure_is_silent:
  "status (fst (add_song (Some [(''titulo'', PStr ''Imagine''), (''artista'', PStr ''John Lennon'')])
                  readonly_fs)) = 201
   \<and> snd (add_song (Some [(''titulo'', PStr ''Imagine''), (''artista'', PStr ''John Lennon'')])
            readonly_fs) = readonly_fs
   \<and> status (fst (delete_song 2 readonly_fs)) = 200
   \<and> snd (delete_song 2 readonly_fs) = readonly_fs"
  by code_simp


section \<open>Records that share an id\<close>

lemma find_map_filter_first:
  "find P (List.map_filter f xs) = Some g \<Longrightarrow>
     \<exists>k<length xs. f (xs ! k) = Some g \<and> P g \<and> (\<forall>j<k. \<forall>g'. f (xs ! j) = Some g' \<longrightarrow> \<not> P g')"
proof (induction xs)
  case Nil
  then show ?case by (simp add: List.map_filter_simps)
next
  case (Cons x xs)
  show ?case
  proof (cases "f x")
    case None
    with Cons.prems have "find P (List.map_filter f xs) = Some g"
      by (simp add: List.map_filter_simps)
    from Cons.IH [OF this] obtain k where
      k: "k < length xs" "f (xs ! k) = Some g" "P g"
         "\<forall>j<k. \<forall>g'. f (xs ! j) = Some g' \<longrightarrow> \<not> P g'"
      by blast
    have "\<forall>j<Suc k. \<forall>g'. f ((x # xs) ! j) = Some g' \<longrightarrow> \<not> P g'"
      using k(4) None by (auto simp: less_Suc_eq_0_disj)
    with k show ?thesis
      by (intro exI [of _ "Suc k"]) simp
  next
    case (Some y)
    show ?thesis
    proof (cases "P y")
      case True
      with Some Cons.prems have "y = g"
        by (simp add: List.map_filter_simps)
      with Some True show ?thesis
        by (intro exI [of _ 0]) simp
    next
      case False
      with Some Cons.prems have "find P (List.map_filter f xs) = Some g"
        by (simp add: List.map_filter_simps)
      from Cons.IH [OF this] obtain k where
        k: "k < length xs" "f (xs ! k) = Some g" "P g"
           "\<forall>j<k. \<forall>g'. f (xs ! j) = Some g' \<longrightarrow> \<not> P g'"
        by blast
      have "\<forall>j<Suc k. \<forall>g'. f ((x # xs) ! j) = Some g' \<longrightarrow> \<not> P g'"
        using k(4) Some False by (auto simp: less_Suc_eq_0_disj)
      with k show ?thesis
        by (intro exI [of _ "Suc k"]) simp
    qed
  qed
qed

lemma Song_parse_id:
  assumes "Song_parse L x = Some r" "elem_get x ''id'' PNone = Some (PInt m)"
  shows "song_id r = m"
proof -
  from assms(1) obtain d where x: "x = PDict d" and g: "Song L d = Inr r"
    by (auto simp: Song_parse_def split: pyval.splits sum.splits)
  from assms(2) x have i: "dget d ''id'' = Some (PInt m)"
    by (auto simp: elem_get_def split: option.splits)
  from g have "errs (required_field ''id'' (int_validator L) d) = []"
    and r: "song_id r = projr (required_field ''id'' (int_validator L) d)"
    by (auto simp: Song_def Let_def split: if_splits)
  from i have "required_field ''id'' (int_validator L) d = Inr m"
    by (simp add: required_field_def int_validator_def)
  with r show ?thesis by simp
qed

lemma db_get_song_by_id_find:
  assumes "db_read_data L now s = (Inr d, s1)" "py_iter (data_songs d) = Some xs"
  shows "db_get_song_by_id L now i s
           = (Inr (find (\<lambda>g. song_id g = i) (List.map_filter (Song_parse L) xs)), s1)"
  using assms by (simp add: db_get_song_by_id_def db_get_all_songs_def)

lemma db_delete_song_removes_all:
  assumes "db_read_data L now s = (Inr d, s1)" "py_iter (data_songs d) = Some xs"
    "db_delete_song L now i s = (Inr True, s2)"
  shows "\<exists>doc. db s2 = Json (PDict doc)
           \<and> data_songs doc
               = PList (filter (\<lambda>song. \<not> py_eq_int (the (elem_get song ''id'' PNone)) i) xs)
           \<and> (\<forall>x\<in>set xs. \<exists>v. elem_get x ''id'' PNone = Some v)"
proof -
  from db_delete_song_True [OF assms(3)] assms(1,2) obtain kept doc where
    rm: "remove_song_id i xs = Some kept"
    and s2: "s2 = (db_create_backup s1)\<lparr>db := Json (PDict doc)\<rparr>"
    and sg: "dget doc ''songs'' = Some (PList kept)"
    by auto
  from sg have "data_songs doc = PList kept" by (simp add: data_songs_def)
  with remove_song_id_Some [OF rm] s2 show ?thesis by auto
qed

text \<open>
  Which records a lookup and a delete touch, for a document that could be read with the
  elements \<open>xs\<close> of its songs. \<^verbatim>\<open>get_song_by_id\<close> returns the first song of the listing
  with the id, that is the parse of the first element in file order that parses as a
  \<^verbatim>\<open>Song\<close> with the id (the id of a listed song is the integer \<^verbatim>\<open>"id"\<close> of its
  element). A \<^verbatim>\<open>delete_song\<close> that returns \<^verbatim>\<open>True\<close> has written the document without
  any of the elements whose \<^verbatim>\<open>"id"\<close> equals the id.
\<close>

theorem get_first_delete_all_with_id:
  assumes "db_read_data L now s = (Inr d, s1)" "py_iter (data_songs d) = Some xs"
  shows "db_get_song_by_id L now i s
           = (Inr (find (\<lambda>g. song_id g = i) (List.map_filter (Song_parse L) xs)), s1)
    \<and> (find (\<lambda>g. song_id g = i) (List.map_filter (Song_parse L) xs) = Some r \<longrightarrow>
         (\<exists>k<length xs. Song_parse L (xs ! k) = Some r \<and> song_id r = i
            \<and> (\<forall>j<k. \<forall>g'. Song_parse L (xs ! j) = Some g' \<longrightarrow> song_id g' \<noteq> i)))
    \<and> (Song_parse L x = Some r \<and> elem_get x ''id'' PNone = Some (PInt m) \<longrightarrow> song_id r = m)
    \<and> (db_delete_song L now i s = (Inr True, s2) \<longrightarrow>
         (\<exists>doc. db s2 = Json (PDict doc)
            \<and> data_songs doc
                = PList (filter (\<lambda>song. \<not> py_eq_int (the (elem_get song ''id'' PNone)) i) xs)
            \<and> (\<forall>x\<in>set xs. \<exists>v. elem_get x ''id'' PNone = Some v)))"
proof -
  have 2: "find (\<lambda>g. song_id g = i) (List.map_filter (Song_parse L) xs) = Some r \<longrightarrow>
         (\<exists>k<length xs. Song_parse L (xs ! k) = Some r \<and> song_id r = i
            \<and> (\<forall>j<k. \<forall>g'. Song_parse L (xs ! j) = Some g' \<longrightarrow> song_id g' \<noteq> i))"
    using find_map_filter_first [of "\<lambda>g. song_id g = i" "Song_parse L" xs r] by blast
  have 3: "Song_parse L x = Some r \<and> elem_get x ''id'' PNone = Some (PInt m) \<longrightarrow> song_id r = m"
    using Song_parse_id by blast
  have 5: "db_delete_song L now i s = (Inr True, s2) \<longrightarrow>
         (\<exists>doc. db s2 = Json (PDict doc)
            \<and> data_songs doc
                = PList (filter (\<lambda>song. \<not> py_eq_int (the (elem_get song ''id'' PNone)) i) xs)
            \<and> (\<forall>x\<in>set xs. \<exists>v. elem_get x ''id'' PNone = Some v))"
    using db_delete_song_removes_all [OF assms] by blast
  from db_get_song_by_id_find [OF assms, of i] 2 3 5 show ?thesis
    by (intro conjI) assumption+
qed

text \<open>
  Two records with the id 1 and one with the id 2: the first is returned, both are removed
  by the delete.
\<close>

lemma duplicate_read:
  "fst (db_read_data test_lib clock0 duplicate_fs)
     = Inr (projr (fst (db_read_data test_lib clock0 duplicate_fs)))"
  "py_iter (data_songs (projr (fst (db_read_data test_lib clock0 duplicate_fs))))
     = Some [sample_song 1 ''First'' ''Queen'' ''A'' 1975,
             sample_song 1 ''Second'' ''Queen'' ''B'' 1976,
             sample_song 2 ''Third'' ''Queen'' ''C'' 1977]"
  by code_simp+

lemma duplicate_get:
  "map_option titulo (find (\<lambda>g. song_id g = 1)
     (List.map_filter (Song_parse test_lib)
        [sample_song 1 ''First'' ''Queen'' ''A'' 1975,
         sample_song 1 ''Second'' ''Queen'' ''B'' 1976,
         sample_song 2 ''Third'' ''Queen'' ''C'' 1977])) = Some ''First''"
  by code_simp

lemma duplicate_delete:
  "fst (db_delete_song test_lib clock0 1 duplicate_fs) = Inr True"
  by code_simp

lemma duplicate_filter:
  "filter (\<lambda>song. \<not> py_eq_int (the (elem_get song ''id'' PNone)) 1)
     [sample_song 1 ''First'' ''Queen'' ''A'' 1975,
      sample_song 1 ''Second'' ''Queen'' ''B'' 1976,
      sample_song 2 ''Third'' ''Queen'' ''C'' 1977]
   = [sample_song 2 ''Third'' ''Queen'' ''C'' 1977]"
  by code_simp

theorem get_first_delete_all_with_id_witness:
  "map_option titulo (projr (fst (db_get_song_by_id test_lib clock0 1 duplicate_fs)))
     = Some ''First''
   \<and> (\<exists>doc. db (snd (db_delete_song test_lib clock0 1 duplicate_fs)) = Json (PDict doc)
         \<and> data_songs doc = PList [sample_song 2 ''Third'' ''Queen'' ''C'' 1977])"
proof -
  let ?d = "projr (fst (db_read_data test_lib clock0 duplicate_fs))"
  let ?s1 = "snd (db_read_data test_lib clock0 duplicate_fs)"
  let ?s2 = "snd (db_delete_song test_lib clock0 1 duplicate_fs)"
  have rd: "db_read_data test_lib clock0 duplicate_fs = (Inr ?d, ?s1)"
    using duplicate_read(1) by (simp add: prod_eq_iff)
  have de: "db_delete_song test_lib clock0 1 duplicate_fs = (Inr True, ?s2)"
    using duplicate_delete by (simp add: prod_eq_iff)
  note t = get_first_delete_all_with_id
             [OF rd duplicate_read(2), where i = 1 and ?s2.0 = ?s2]
  note t1 = t [THEN conjunct1]
  note t5 = t [THEN conjunct2, THEN conjunct2, THEN conjunct2]
  from t1 duplicate_get
  have 1: "map_option titulo (projr (fst (db_get_song_by_id test_lib clock0 1 duplicate_fs)))
             = Some ''First''"
    by simp
  from t5 de duplicate_filter
  have 3: "\<exists>doc. db ?s2 = Json (PDict doc)
         \<and> data_songs doc = PList [sample_song 2 ''Third'' ''Queen'' ''C'' 1977]"
    by auto
  from 1 3 show ?thesis by blast
qed


section \<open>What an update changes\<close>

lemma dget_dupdate:
  "dget (dupdate d e) k = (case map_of (rev e) k of None \<Rightarrow> dget d k | Some v \<Rightarrow> Some v)"
proof (induction e arbitrary: d)
  case Nil
  then show ?case by (simp add: dupdate_def)
next
  case (Cons kv e)
  have "dget (dupdate d (kv # e)) k = dget (dupdate (dset d (fst kv) (snd kv)) e) k"
    by (simp add: dupdate_def)
  also have "\<dots> = (case map_of (rev e) k of None \<Rightarrow> dget (dset d (fst kv) (snd kv)) k
                      | Some v \<Rightarrow> Some v)"
    by (rule Cons.IH)
  also have "\<dots> = (case map_of (rev (kv # e)) k of None \<Rightarrow> dget d k | Some v \<Rightarrow> Some v)"
    by (cases kv) (auto simp: dget_dset map_add_def split: option.splits)
  finally show ?case .
qed
















section \<open>Validation of a create payload\<close>

lemma base_str_field_str:
  "dget d f = Some (PStr t) \<Longrightarrow>
     base_str_field f mn mx d =
       (if length t < mn then Inl (MinLength f)
        else if length t > mx then Inl (MaxLength f)
        else if strip t = [] then Inl (EmptyAfterStrip f)
        else Inr (strip t))"
  by (simp add: base_str_field_def constr_validate_def str_validator_def
        no_empty_after_strip_def strip_whitespace_def)

lemma base_str_field_missing: "dget d f = None \<Longrightarrow> base_str_field f mn mx d = Inl (Missing f)"
  by (simp add: base_str_field_def)

lemma errs_simps: "errs (Inl e) = [e]" "errs (Inr x) = []"
  by (simp_all add: errs_def)

lemma errs_Nil: "errs r = [] \<Longrightarrow> \<exists>x. r = Inr x"
  by (cases r) (simp_all add: errs_def)

lemma album_field_absent: "dget d ''album'' = None \<Longrightarrow> album_field d = Inr None"
  by (simp add: album_field_def)

lemma anio_field_absent: "dget d anio_key = None \<Longrightarrow> anio_field L d = Inr None"
  by (simp add: anio_field_def)

lemma SongCreate_Inr:
  assumes "SongCreate L d = Inr r"
  shows "base_str_field ''titulo'' 1 200 d = Inr (titulo r)
         \<and> base_str_field ''artista'' 1 100 d = Inr (artista r)
         \<and> album_field d = Inr (album r) \<and> anio_field L d = Inr (anio r)"
proof -
  from assms have e: "errs (base_str_field ''titulo'' 1 200 d) = []"
    "errs (base_str_field ''artista'' 1 100 d) = []"
    "errs (album_field d) = []" "errs (anio_field L d) = []"
    by (auto simp: SongCreate_def Let_def split: if_splits)
  from e [THEN errs_Nil] assms show ?thesis
    by (auto simp: SongCreate_def Let_def errs_simps)
qed

lemma SongCreate_Inl:
  "SongCreate L d = Inl es \<Longrightarrow>
     es = errs (base_str_field ''titulo'' 1 200 d) @ errs (base_str_field ''artista'' 1 100 d)
          @ errs (album_field d) @ errs (anio_field L d)"
  by (auto simp: SongCreate_def Let_def split: if_splits)

lemma SongCreate_error:
  assumes "base_str_field ''titulo'' 1 200 d = Inl e"
  shows "\<exists>es. SongCreate L d = Inl es \<and> e \<in> set es
           \<and> (\<forall>e'. e' \<in> set es \<and> e' \<noteq> e
                \<longrightarrow> e' \<in> set (errs (base_str_field ''artista'' 1 100 d) @ errs (album_field d)
                                  @ errs (anio_field L d)))"
  using assms by (auto simp: SongCreate_def Let_def errs_simps)

lemma errs_artista_not_titulo:
  "e \<in> set (errs (base_str_field ''artista'' mn mx d)) \<Longrightarrow>
     e \<noteq> Missing ''titulo'' \<and> e \<noteq> EmptyAfterStrip ''titulo''"
  by (auto simp: errs_def base_str_field_def constr_validate_def no_empty_after_strip_def
           split: sum.splits option.splits pyval.splits if_splits)

lemma errs_album_not_titulo:
  "e \<in> set (errs (album_field d)) \<Longrightarrow>
     e \<noteq> Missing ''titulo'' \<and> e \<noteq> EmptyAfterStrip ''titulo''"
  by (auto simp: errs_def album_field_def constr_validate_def
           split: sum.splits option.splits pyval.splits if_splits)

lemma errs_anio_not_titulo:
  "e \<in> set (errs (anio_field L d)) \<Longrightarrow>
     e \<noteq> Missing ''titulo'' \<and> e \<noteq> EmptyAfterStrip ''titulo''"
  by (auto simp: errs_def anio_field_def conint_validate_def
           split: sum.splits option.splits pyval.splits if_splits)

lemma SongCreate_titulo_error:
  assumes "base_str_field ''titulo'' 1 200 d = Inl e" "e' \<noteq> e"
    "e' = Missing ''titulo'' \<or> e' = EmptyAfterStrip ''titulo''"
  shows "\<exists>es. SongCreate L d = Inl es \<and> e \<in> set es \<and> e' \<notin> set es"
proof -
  from SongCreate_error [OF assms(1)] obtain es where
    es: "SongCreate L d = Inl es" "e \<in> set es"
    and o: "\<forall>x. x \<in> set es \<and> x \<noteq> e
                \<longrightarrow> x \<in> set (errs (base_str_field ''artista'' 1 100 d) @ errs (album_field d)
                                  @ errs (anio_field L d))"
    by blast
  have "e' \<notin> set es"
  proof
    assume "e' \<in> set es"
    with o assms(2) have "e' \<in> set (errs (base_str_field ''artista'' 1 100 d))
        \<or> e' \<in> set (errs (album_field d)) \<or> e' \<in> set (errs (anio_field L d))"
      by auto
    with errs_artista_not_titulo errs_album_not_titulo errs_anio_not_titulo assms(3)
    show False by blast
  qed
  with es show ?thesis by blast
qed

lemma new_song_dict_titulo:
  "dget (new_song_dict n uu now r) ''titulo'' = Some (PStr (titulo r))"
  by (simp add: new_song_dict_def dget_dset dget_dupdate SongBase_dict_def anio_key_def)

text \<open>
  Claim C8, as amended, for a title and an artist given as strings. The length bounds
  (1--200, 1--100) are checked on the value as given; the value is trimmed after that, and
  the emptiness check is on the trimmed value. An accepted payload carries the trimmed
  values, and they are what \<^verbatim>\<open>create_song\<close> puts in the record. A title longer than 200
  is rejected whatever its trimmed length. A title within the bounds that is empty after
  trimming is rejected with the error of \<^verbatim>\<open>no_empty_after_strip\<close>, which is not the
  error of a missing field, and a missing title with the latter and not the former.
\<close>

theorem create_checks_length_then_trims:
  "(dget d ''titulo'' = Some (PStr t) \<and> dget d ''artista'' = Some (PStr a)
      \<and> SongCreate L d = Inr r
      \<longrightarrow> titulo r = strip t \<and> artista r = strip a
          \<and> 1 \<le> length t \<and> length t \<le> 200 \<and> strip t \<noteq> []
          \<and> 1 \<le> length a \<and> length a \<le> 100 \<and> strip a \<noteq> []
          \<and> dget (new_song_dict n uu now r) ''titulo'' = Some (PStr (strip t)))
   \<and> (dget d ''titulo'' = Some (PStr t) \<and> dget d ''artista'' = Some (PStr a)
      \<and> 1 \<le> length t \<and> length t \<le> 200 \<and> strip t \<noteq> []
      \<and> 1 \<le> length a \<and> length a \<le> 100 \<and> strip a \<noteq> []
      \<and> dget d ''album'' = None \<and> dget d anio_key = None
      \<longrightarrow> SongCreate L d = Inr \<lparr>titulo = strip t, artista = strip a, album = None, anio = None\<rparr>)
   \<and> (dget d ''titulo'' = Some (PStr t) \<and> 200 < length t
      \<longrightarrow> (\<exists>es. SongCreate L d = Inl es \<and> MaxLength ''titulo'' \<in> set es))
   \<and> (dget d ''titulo'' = Some (PStr t) \<and> 1 \<le> length t \<and> length t \<le> 200 \<and> strip t = []
      \<longrightarrow> (\<exists>es. SongCreate L d = Inl es \<and> EmptyAfterStrip ''titulo'' \<in> set es
                \<and> Missing ''titulo'' \<notin> set es))
   \<and> (dget d ''titulo'' = None
      \<longrightarrow> (\<exists>es. SongCreate L d = Inl es \<and> Missing ''titulo'' \<in> set es
                \<and> EmptyAfterStrip ''titulo'' \<notin> set es))"
proof -
  have 1: "dget d ''titulo'' = Some (PStr t) \<and> dget d ''artista'' = Some (PStr a)
      \<and> SongCreate L d = Inr r
      \<longrightarrow> titulo r = strip t \<and> artista r = strip a
          \<and> 1 \<le> length t \<and> length t \<le> 200 \<and> strip t \<noteq> []
          \<and> 1 \<le> length a \<and> length a \<le> 100 \<and> strip a \<noteq> []
          \<and> dget (new_song_dict n uu now r) ''titulo'' = Some (PStr (strip t))"
  proof
    assume a: "dget d ''titulo'' = Some (PStr t) \<and> dget d ''artista'' = Some (PStr a)
      \<and> SongCreate L d = Inr r"
    from a SongCreate_Inr [of L d r]
    have "base_str_field ''titulo'' 1 200 d = Inr (titulo r)"
      "base_str_field ''artista'' 1 100 d = Inr (artista r)" by simp_all
    with a base_str_field_str [of d "''titulo''" t 1 200]
      base_str_field_str [of d "''artista''" a 1 100]
    have "titulo r = strip t \<and> artista r = strip a
          \<and> 1 \<le> length t \<and> length t \<le> 200 \<and> strip t \<noteq> []
          \<and> 1 \<le> length a \<and> length a \<le> 100 \<and> strip a \<noteq> []"
      by (auto split: if_splits simp: Suc_le_eq)
    then show "titulo r = strip t \<and> artista r = strip a
          \<and> 1 \<le> length t \<and> length t \<le> 200 \<and> strip t \<noteq> []
          \<and> 1 \<le> length a \<and> length a \<le> 100 \<and> strip a \<noteq> []
          \<and> dget (new_song_dict n uu now r) ''titulo'' = Some (PStr (strip t))"
      by (simp add: new_song_dict_titulo)
  qed
  have 2: "dget d ''titulo'' = Some (PStr t) \<and> dget d ''artista'' = Some (PStr a)
      \<and> 1 \<le> length t \<and> length t \<le> 200 \<and> strip t \<noteq> []
      \<and> 1 \<le> length a \<and> length a \<le> 100 \<and> strip a \<noteq> []
      \<and> dget d ''album'' = None \<and> dget d anio_key = None
      \<longrightarrow> SongCreate L d = Inr \<lparr>titulo = strip t, artista = strip a, album = None, anio = None\<rparr>"
    by (auto simp: SongCreate_def Let_def base_str_field_str album_field_absent
          anio_field_absent errs_simps)
  have 3: "dget d ''titulo'' = Some (PStr t) \<and> 200 < length t
      \<longrightarrow> (\<exists>es. SongCreate L d = Inl es \<and> MaxLength ''titulo'' \<in> set es)"
  proof
    assume a: "dget d ''titulo'' = Some (PStr t) \<and> 200 < length t"
    then have "base_str_field ''titulo'' 1 200 d = Inl (MaxLength ''titulo'')"
      by (auto simp: base_str_field_str)
    from SongCreate_error [OF this]
    show "\<exists>es. SongCreate L d = Inl es \<and> MaxLength ''titulo'' \<in> set es" by blast
  qed
  have 4: "dget d ''titulo'' = Some (PStr t) \<and> 1 \<le> length t \<and> length t \<le> 200 \<and> strip t = []
      \<longrightarrow> (\<exists>es. SongCreate L d = Inl es \<and> EmptyAfterStrip ''titulo'' \<in> set es
                \<and> Missing ''titulo'' \<notin> set es)"
  proof
    assume a: "dget d ''titulo'' = Some (PStr t) \<and> 1 \<le> length t \<and> length t \<le> 200 \<and> strip t = []"
    then have "base_str_field ''titulo'' 1 200 d = Inl (EmptyAfterStrip ''titulo'')"
      by (auto simp: base_str_field_str)
    from SongCreate_titulo_error [OF this, of "Missing ''titulo''"]
    show "\<exists>es. SongCreate L d = Inl es \<and> EmptyAfterStrip ''titulo'' \<in> set es
                \<and> Missing ''titulo'' \<notin> set es" by simp
  qed
  have 5: "dget d ''titulo'' = None
      \<longrightarrow> (\<exists>es. SongCreate L d = Inl es \<and> Missing ''titulo'' \<in> set es
                \<and> EmptyAfterStrip ''titulo'' \<notin> set es)"
  proof
    assume "dget d ''titulo'' = None"
    then have "base_str_field ''titulo'' 1 200 d = Inl (Missing ''titulo'')"
      by (rule base_str_field_missing)
    from SongCreate_titulo_error [OF this, of "EmptyAfterStrip ''titulo''"]
    show "\<exists>es. SongCreate L d = Inl es \<and> Missing ''titulo'' \<in> set es
                \<and> EmptyAfterStrip ''titulo'' \<notin> set es" by simp
  qed
  from 1 2 3 4 5 show ?thesis
    by (intro conjI) assumption+
qed

text \<open>
  \<^verbatim>\<open>"  Imagine "\<close> and \<^verbatim>\<open>" John Lennon  "\<close> are accepted and trimmed; a title of three
  blanks, no title, and a title of 201 characters are rejected, each with its own error.
\<close>

lemma padded_facts:
  "dget padded_payload ''titulo'' = Some (PStr ''  Imagine '')"
  "dget padded_payload ''artista'' = Some (PStr '' John Lennon  '')"
  "dget padded_payload ''album'' = None" "dget padded_payload anio_key = None"
  "strip ''  Imagine '' = ''Imagine''" "strip '' John Lennon  '' = ''John Lennon''"
  "dget blank_title_payload ''titulo'' = Some (PStr ''   '')" "strip ''   '' = []"
  "dget long_padded_payload ''titulo'' = Some (PStr (replicate 200 (CHR ''a'') @ '' ''))"
  "length (replicate 200 (CHR ''a'') @ '' '') = 201"
  by code_simp+

theorem create_checks_length_then_trims_witness:
  "SongCreate test_lib padded_payload
     = Inr \<lparr>titulo = ''Imagine'', artista = ''John Lennon'', album = None, anio = None\<rparr>
   \<and> (\<exists>es. SongCreate test_lib blank_title_payload = Inl es
         \<and> EmptyAfterStrip ''titulo'' \<in> set es \<and> Missing ''titulo'' \<notin> set es)
   \<and> (\<exists>es. SongCreate test_lib [] = Inl es
         \<and> Missing ''titulo'' \<in> set es \<and> EmptyAfterStrip ''titulo'' \<notin> set es)
   \<and> (\<exists>es. SongCreate test_lib long_padded_payload = Inl es \<and> MaxLength ''titulo'' \<in> set es)"
proof -
  from create_checks_length_then_trims
         [where d = padded_payload and t = "''  Imagine ''" and a = "'' John Lennon  ''"
            and L = test_lib]
    padded_facts
  have 1: "SongCreate test_lib padded_payload
     = Inr \<lparr>titulo = ''Imagine'', artista = ''John Lennon'', album = None, anio = None\<rparr>"
    by simp
  from create_checks_length_then_trims
         [where d = blank_title_payload and t = "''   ''" and L = test_lib]
    padded_facts
  have 2: "\<exists>es. SongCreate test_lib blank_title_payload = Inl es
         \<and> EmptyAfterStrip ''titulo'' \<in> set es \<and> Missing ''titulo'' \<notin> set es"
    by simp
  have "dget [] ''titulo'' = None" by (simp add: dget_def)
  with create_checks_length_then_trims [where d = "[]" and L = test_lib]
  have 3: "\<exists>es. SongCreate test_lib [] = Inl es
         \<and> Missing ''titulo'' \<in> set es \<and> EmptyAfterStrip ''titulo'' \<notin> set es"
    by blast
  from create_checks_length_then_trims
         [where d = long_padded_payload and t = "replicate 200 (CHR ''a'') @ '' ''"
            and L = test_lib]
    padded_facts
  have 4: "\<exists>es. SongCreate test_lib long_padded_payload = Inl es \<and> MaxLength ''titulo'' \<in> set es"
    by simp
  from 1 2 3 4 show ?thesis by (intro conjI) assumption+
qed

text \<open>
  Against C8 as stated: a title of 200 letters and one trailing blank has a trimmed length
  of 200, within 1--200, and is rejected for its length.
\<close>

theorem trimmed_length_in_range_rejected:
  "SongCreate test_lib long_padded_payload = Inl [MaxLength ''titulo'']
   \<and> length (strip (replicate 200 (CHR ''a'') @ '' '')) = 200"
  by code_simp


section \<open>Where the code departs from the claims\<close>

text \<open>
  Claim C7 fails on the code. \<^verbatim>\<open>SongUpdate\<close> accepts a title of three blanks and returns
  the empty title; \<^verbatim>\<open>update_song\<close> then merges it, \<^verbatim>\<open>Song\<close> rejects the merged record
  for its length, and the method raises \<^verbatim>\<open>DatabaseWriteError\<close>. \<^verbatim>\<open>SongCreate\<close> rejects
  the same title with the error of \<^verbatim>\<open>no_empty_after_strip\<close>, the validator
  \<^verbatim>\<open>SongUpdate\<close> lacks.
\<close>

theorem update_accepts_blank_title:
  "SongUpdate test_lib [(''titulo'', PStr ''   '')] = Inr blank_title_update
   \<and> Song test_lib (merge_update (sample_record 1 ''Bohemian Rhapsody'' ''Queen''
                                     ''A Night at the Opera'' 1975)
                       (SongUpdate_dict_exclude_unset blank_title_update) clock0)
       = Inl [MinLength ''titulo'']
   \<and> fst (db_update_song test_lib clock0 1 blank_title_update sample_fs) = Inl DatabaseWriteError
   \<and> SongCreate test_lib blank_title_payload = Inl [EmptyAfterStrip ''titulo'']"
  by code_simp

text \<open>
  Claim C4 fails on the minimal variant. On an empty store the body
  \<^verbatim>\<open>{"id": 99, "titulo": ..., "artista": ...}\<close> creates, returns and stores a record with
  the id 99, not 1: \<^verbatim>\<open>new_song.update(body)\<close> overwrites the id line 157 assigned.
  \<^verbatim>\<open>update_song\<close> of the same file pops \<^verbatim>\<open>"id"\<close> from the body: the ids stay 1, 2, 3.
\<close>

theorem create_takes_client_id:
  "add_song (Some [(''id'', PInt 99), (''titulo'', PStr ''Imagine''),
                   (''artista'', PStr ''John Lennon'')]) empty_fs
     = (\<lparr>status = 201,
         data = Some (PDict [(''id'', PInt 99), (''titulo'', PStr ''Imagine''),
                             (''artista'', PStr ''John Lennon'')])\<rparr>,
        empty_fs\<lparr>db := Json (PDict [(''songs'',
                     PList [PDict [(''id'', PInt 99), (''titulo'', PStr ''Imagine''),
                                   (''artista'', PStr ''John Lennon'')]])])\<rparr>)
   \<and> map (\<lambda>e. elem_get e ''id'' PNone)
       (fst (read_data (snd (update_song 1 (Some [(''id'', PInt 99)]) sample_fs))))
     = [Some (PInt 1), Some (PInt 2), Some (PInt 3)]"
  by code_simp

text \<open>
  Claim C1 fails on the code. Minimal variant: on the store with the ids 1, 2, 3 a body
  that carries \<^verbatim>\<open>"id": 2\<close> creates a record with the id 2, not 4, and the listing then
  holds the id 2 twice. Professional variant: a valid create on the same store raises
  \<^verbatim>\<open>DatabaseWriteError\<close> and the file is as before, so no record is created at all.
\<close>

theorem create_assigns_client_id_again:
  "data (fst (add_song (Some [(''titulo'', PStr ''Imagine''), (''artista'', PStr ''John Lennon''),
                              (''id'', PInt 2)]) sample_fs))
     = Some (PDict [(''id'', PInt 2), (''titulo'', PStr ''Imagine''),
                    (''artista'', PStr ''John Lennon'')])
   \<and> map (\<lambda>e. elem_get e ''id'' PNone)
       (fst (read_data (snd (add_song (Some [(''titulo'', PStr ''Imagine''),
                                             (''artista'', PStr ''John Lennon''),
                                             (''id'', PInt 2)]) sample_fs))))
     = [Some (PInt 1), Some (PInt 2), Some (PInt 3), Some (PInt 2)]
   \<and> fst (db_create_song test_lib clock0 ''550e8400'' sample_create sample_fs)
       = Inl DatabaseWriteError
   \<and> db (snd (db_create_song test_lib clock0 ''550e8400'' sample_create sample_fs)) = db sample_fs"
  by code_simp

text \<open>
  Claim C10 fails on the code. In a store whose first two records share the id 1,
  \<^verbatim>\<open>get_song_by_id\<close> returns the first of them and \<^verbatim>\<open>delete_song\<close> removes both, but
  \<^verbatim>\<open>update_song\<close> modifies no record at all: it finds the first match, validates the
  merged record and puts \<^verbatim>\<open>updated_song.dict()\<close> in its place, whose timestamps are
  \<^verbatim>\<open>datetime\<close> objects; \<^verbatim>\<open>json.dump\<close> rejects them, the method raises
  \<^verbatim>\<open>DatabaseWriteError\<close>, and the file is as before.
\<close>

theorem shared_id_update_changes_no_record:
  "map_option titulo (projr (fst (db_get_song_by_id test_lib clock0 1 duplicate_fs)))
     = Some ''First''
   \<and> fst (db_update_song test_lib clock0 1 album_update duplicate_fs) = Inl DatabaseWriteError
   \<and> db (snd (db_update_song test_lib clock0 1 album_update duplicate_fs)) = db duplicate_fs
   \<and> fst (db_delete_song test_lib clock0 1 duplicate_fs) = Inr True
   \<and> map titulo (projr (fst (db_get_all_songs test_lib clock1
                                (snd (db_delete_song test_lib clock0 1 duplicate_fs)))))
       = [''Third'']"
  by code_simp


section \<open>Further properties of the code\<close>

text \<open>
  The professional \<^verbatim>\<open>create_song\<close> never returns a song: whatever the payload, the store
  and the environment, it raises \<^verbatim>\<open>DatabaseReadError\<close> or \<^verbatim>\<open>DatabaseWriteError\<close>, and
  the database file is what the read left. The record it appends is \<^verbatim>\<open>song.dict()\<close>,
  whose timestamps are \<^verbatim>\<open>datetime\<close> objects, and \<^verbatim>\<open>json.dump\<close> rejects them.
\<close>

theorem professional_create_never_commits:
  "(\<exists>s1. db_create_song L now u sd s = (Inl DatabaseReadError, s1)
         \<or> db_create_song L now u sd s = (Inl DatabaseWriteError, s1))
   \<and> db (snd (db_create_song L now u sd s)) = db (snd (db_read_data L now s))"
  using db_create_song_fails [of L now u sd s] db_create_song_db [of L now u sd s]
  by blast

text \<open>
  The professional \<^verbatim>\<open>update_song\<close> never returns a song either: it raises
  \<^verbatim>\<open>SongNotFoundError\<close> or \<^verbatim>\<open>DatabaseWriteError\<close>, for the same reason.
\<close>

theorem professional_update_never_commits:
  "(\<exists>s1. db_update_song L now i su s = (Inl DatabaseWriteError, s1)
         \<or> db_update_song L now i su s = (Inl SongNotFoundError, s1))
   \<and> db (snd (db_update_song L now i su s)) = db (snd (db_read_data L now s))"
  using db_update_song_fails [of L now i su s] db_update_song_db [of L now i su s]
  by blast

lemma next_id_Max:
  "next_id ids = (if ids = [] then 1 else Max (set ids) + 1)"
  by (cases ids) (simp_all add: next_id_def Max.set_eq_fold [symmetric])

lemma next_id_greater: "n \<in> set ids \<Longrightarrow> n < next_id ids"
proof -
  assume n: "n \<in> set ids"
  then have "ids \<noteq> []" by auto
  moreover from n have "n \<le> Max (set ids)" by simp
  ultimately show ?thesis by (simp add: next_id_Max)
qed

text \<open>
  The minimal \<^verbatim>\<open>add_song\<close> for a body with title and artist and without \<^verbatim>\<open>id\<close>: it
  answers 201 with a record whose id is the greatest integer id of the store plus one (1 if
  there is none), greater than every integer id of the store; on a writable store with
  JSON contents the listing afterwards is the listing before with the new record appended.
\<close>

theorem minimal_create_assigns_next_id:
  assumes "dget b ''titulo'' \<noteq> None" "dget b ''artista'' \<noteq> None" "dget b ''id'' = None"
    "read_data s = (xs, s1)" "existing_int_ids xs = Some ids"
  shows "\<exists>r s2. add_song (Some b) s = (\<lparr>status = 201, data = Some (PDict r)\<rparr>, s2)
           \<and> dget r ''id'' = Some (PInt (next_id ids))
           \<and> next_id ids = (if ids = [] then 1 else Max (set ids) + 1)
           \<and> (\<forall>n\<in>set ids. n < next_id ids)
           \<and> (writable s \<and> json_ok (PList xs) \<and> json_ok (PDict b)
                \<longrightarrow> read_data s2 = (xs @ [PDict r], s2))"
proof -
  let ?r = "dupdate [(''id'', PInt (next_id ids))] b"
  let ?doc = "PDict [(''songs'', PList (xs @ [PDict ?r]))]"
  let ?s2 = "write_data ?doc s1"
  from assms(1) have ne: "b \<noteq> []" by (auto simp: dget_def)
  from ne assms have a: "add_song (Some b) s = (\<lparr>status = 201, data = Some (PDict ?r)\<rparr>, ?s2)"
    by (simp add: add_song_def Let_def)
  from dget_dupdate_other [OF assms(3)]
  have i: "dget ?r ''id'' = Some (PInt (next_id ids))"
    by (simp add: dget_def)
  have l: "writable s \<and> json_ok (PList xs) \<and> json_ok (PDict b)
             \<longrightarrow> read_data ?s2 = (xs @ [PDict ?r], ?s2)"
  proof
    assume h: "writable s \<and> json_ok (PList xs) \<and> json_ok (PDict b)"
    from read_data_writable [of s] assms(4) h have w: "writable s1" by simp
    from h have "json_ok (PDict ?r)"
      by (intro json_ok_dupdate) simp_all
    with h have "json_ok ?doc" by simp
    with w have "db ?s2 = Json ?doc" by (simp add: write_data_def)
    then show "read_data ?s2 = (xs @ [PDict ?r], ?s2)"
      by (rule read_data_songs)
  qed
  from a i l next_id_Max [of ids] next_id_greater [of _ ids] show ?thesis
    by blast
qed

lemma sample_add:
  "dget [(''titulo'', PStr ''Imagine''), (''artista'', PStr ''John Lennon'')] ''titulo'' \<noteq> None"
  "dget [(''titulo'', PStr ''Imagine''), (''artista'', PStr ''John Lennon'')] ''artista'' \<noteq> None"
  "dget [(''titulo'', PStr ''Imagine''), (''artista'', PStr ''John Lennon'')] ''id'' = None"
  "read_data sample_fs = (fst (read_data sample_fs), sample_fs)"
  "existing_int_ids (fst (read_data sample_fs)) = Some [1, 2, 3]"
  "next_id [1, 2, 3] = 4"
  "writable sample_fs"
  "json_ok (PList (fst (read_data sample_fs)))"
  "json_ok (PDict [(''titulo'', PStr ''Imagine''), (''artista'', PStr ''John Lennon'')])"
  "length (fst (read_data sample_fs)) = 3"
  by code_simp+

theorem minimal_create_assigns_next_id_witness:
  "\<exists>r s2. add_song (Some [(''titulo'', PStr ''Imagine''), (''artista'', PStr ''John Lennon'')])
             sample_fs = (\<lparr>status = 201, data = Some (PDict r)\<rparr>, s2)
      \<and> dget r ''id'' = Some (PInt 4)
      \<and> length (fst (read_data s2)) = 4"
proof -
  from minimal_create_assigns_next_id [OF sample_add(1,2,3,4,5)] sample_add(6,7,8,9)
  obtain r s2 where
    "add_song (Some [(''titulo'', PStr ''Imagine''), (''artista'', PStr ''John Lennon'')])
       sample_fs = (\<lparr>status = 201, data = Some (PDict r)\<rparr>, s2)"
    "dget r ''id'' = Some (PInt 4)"
    "read_data s2 = (fst (read_data sample_fs) @ [PDict r], s2)"
    by auto
  with sample_add(10) show ?thesis by auto
qed

lemma max_plus_one_Some:
  assumes "max_plus_one vs = Some n"
  shows "(\<forall>v\<in>set vs. \<exists>m. as_int v = Some m \<and> m < n)
         \<and> (vs = [] \<longrightarrow> n = 1)
         \<and> (vs \<noteq> [] \<longrightarrow> (\<exists>v\<in>set vs. as_int v = Some (n - 1)))"
proof -
  from assms obtain ms where ms: "those (map as_int vs) = Some ms"
    by (auto simp: max_plus_one_def split: option.splits)
  from those_map_Some [OF ms]
  have al: "\<forall>v\<in>set vs. as_int v \<noteq> None" and ms': "ms = map (\<lambda>v. the (as_int v)) vs"
    by auto
  show ?thesis
  proof (cases ms)
    case Nil
    with ms' have "vs = []" by simp
    with assms show ?thesis by (simp add: max_plus_one_def)
  next
    case (Cons m ns)
    with ms assms have n: "n = Max (set ms) + 1"
      by (auto simp: max_plus_one_def Max.set_eq_fold [symmetric])
    from Cons have ne: "set ms \<noteq> {}" by simp
    have 1: "\<forall>v\<in>set vs. \<exists>m. as_int v = Some m \<and> m < n"
    proof
      fix v assume v: "v \<in> set vs"
      with al obtain k where k: "as_int v = Some k" by auto
      with v ms' have "k \<in> set ms" by force
      then have "k \<le> Max (set ms)" by simp
      with k n show "\<exists>m. as_int v = Some m \<and> m < n" by simp
    qed
    from Max_in [OF _ ne] have "Max (set ms) \<in> set ms" by simp
    with ms' obtain v where "v \<in> set vs" "the (as_int v) = Max (set ms)" by auto
    with al n have "\<exists>v\<in>set vs. as_int v = Some (n - 1)" by force
    with 1 Cons ms' show ?thesis by auto
  qed
qed

lemma new_song_dict_id: "dget (new_song_dict n uu now sd) ''id'' = Some (PInt n)"
proof -
  have "dget [(''id'', PInt n), (''uuid'', PStr uu)] ''id'' = Some (PInt n)"
    by (simp add: dget_def)
  then show ?thesis
    by (simp add: new_song_dict_def dget_dset dget_dupdate SongBase_dict_def anio_key_def)
qed

text \<open>
  The id the professional \<^verbatim>\<open>create_song\<close> computes (lines 215--216), when it computes
  one: every element of the songs has an integer id (0 for an element without the key)
  below it, it is 1 for no element and otherwise one more than the id of some element; and
  the dictionary of the new record carries it, whatever the payload.
\<close>

theorem professional_new_song_id:
  assumes "new_song_id xs = Some n"
  shows "(\<forall>x\<in>set xs. \<exists>v m. elem_get x ''id'' (PInt 0) = Some v \<and> as_int v = Some m \<and> m < n)
         \<and> (xs = [] \<longrightarrow> n = 1)
         \<and> (xs \<noteq> [] \<longrightarrow>
              (\<exists>x\<in>set xs. \<exists>v. elem_get x ''id'' (PInt 0) = Some v \<and> as_int v = Some (n - 1)))
         \<and> dget (new_song_dict n uu now sd) ''id'' = Some (PInt n)"
proof -
  from assms obtain vs where vs: "those (map (\<lambda>song. elem_get song ''id'' (PInt 0)) xs) = Some vs"
    and m: "max_plus_one vs = Some n"
    by (auto simp: new_song_id_def split: option.splits)
  from those_map_Some [OF vs]
  have al: "\<forall>x\<in>set xs. elem_get x ''id'' (PInt 0) \<noteq> None"
    and vs': "vs = map (\<lambda>x. the (elem_get x ''id'' (PInt 0))) xs" by auto
  from max_plus_one_Some [OF m]
  have a: "\<forall>v\<in>set vs. \<exists>m. as_int v = Some m \<and> m < n"
    and b: "vs = [] \<longrightarrow> n = 1"
    and c: "vs \<noteq> [] \<longrightarrow> (\<exists>v\<in>set vs. as_int v = Some (n - 1))" by auto
  have 1: "\<forall>x\<in>set xs. \<exists>v m. elem_get x ''id'' (PInt 0) = Some v \<and> as_int v = Some m \<and> m < n"
  proof
    fix x assume x: "x \<in> set xs"
    with al obtain v where v: "elem_get x ''id'' (PInt 0) = Some v" by auto
    with x vs' have "v \<in> set vs" by force
    with a v show "\<exists>v m. elem_get x ''id'' (PInt 0) = Some v \<and> as_int v = Some m \<and> m < n"
      by auto
  qed
  from b vs' have 2: "xs = [] \<longrightarrow> n = 1" by simp
  have 3: "xs \<noteq> [] \<longrightarrow>
              (\<exists>x\<in>set xs. \<exists>v. elem_get x ''id'' (PInt 0) = Some v \<and> as_int v = Some (n - 1))"
  proof
    assume "xs \<noteq> []"
    with vs' c obtain v where v: "v \<in> set vs" "as_int v = Some (n - 1)" by auto
    with vs' obtain x where x: "x \<in> set xs" "v = the (elem_get x ''id'' (PInt 0))" by auto
    with al have "elem_get x ''id'' (PInt 0) = Some v" by auto
    with x v show "\<exists>x\<in>set xs. \<exists>v. elem_get x ''id'' (PInt 0) = Some v \<and> as_int v = Some (n - 1)"
      by blast
  qed
  from 1 2 3 new_song_dict_id show ?thesis by blast
qed

lemma sample_new_id:
  "new_song_id [sample_song 1 ''Imagine'' ''John Lennon'' ''Imagine'' 1971,
                sample_song 5 ''Yesterday'' ''The Beatles'' ''Help!'' 1965] = Some 6"
  by code_simp

theorem professional_new_song_id_witness:
  "new_song_id [sample_song 1 ''Imagine'' ''John Lennon'' ''Imagine'' 1971,
                sample_song 5 ''Yesterday'' ''The Beatles'' ''Help!'' 1965] = Some 6
   \<and> dget (new_song_dict 6 ''550e8400'' clock0 sample_create) ''id'' = Some (PInt 6)"
  using professional_new_song_id [OF sample_new_id, of "''550e8400''" clock0 sample_create]
    sample_new_id
  by blast

lemma update_str_field_str:
  "dget d f = Some (PStr t) \<Longrightarrow>
     update_str_field f mn mx d =
       (if length t < mn then Inl (MinLength f)
        else if length t > mx then Inl (MaxLength f)
        else Inr (Some (strip t)))"
  by (simp add: update_str_field_def constr_validate_def str_validator_def strip_whitespace_def)

lemma album_field_str:
  "dget d ''album'' = Some (PStr t) \<Longrightarrow>
     album_field d = (if length t > 200 then Inl (MaxLength ''album'') else Inr (Some t))"
  by (simp add: album_field_def constr_validate_def str_validator_def)

lemma anio_field_int:
  "dget d anio_key = Some (PInt y) \<Longrightarrow>
     anio_field L d =
       (if y < 1800 then Inl (NotGe anio_key)
        else if current_year L < y then Inl (NotLe anio_key)
        else Inr (Some y))"
  by (auto simp: anio_field_def conint_validate_def int_validator_def)

lemma SongUpdate_field_error:
  assumes "update_str_field ''titulo'' 1 200 d = Inl e \<or> update_str_field ''artista'' 1 100 d = Inl e
           \<or> album_field d = Inl e \<or> anio_field L d = Inl e"
  shows "\<exists>es. SongUpdate L d = Inl es \<and> e \<in> set es"
  using assms by (auto simp: SongUpdate_def Let_def errs_simps)

lemma SongUpdate_no_fields:
  assumes "dget d ''titulo'' = None" "dget d ''artista'' = None" "dget d ''album'' = None"
    "dget d anio_key = None"
  shows "SongUpdate L d = Inl [NoFieldProvided]"
  using assms
  by (simp add: SongUpdate_def Let_def update_str_field_def album_field_def anio_field_def
        errs_def value_or_none_def at_least_one_field_def)

lemma SongUpdate_titulo:
  assumes "SongUpdate L d = Inr u" "dget d ''titulo'' = Some (PStr t)"
  shows "u_titulo u = Some (strip t)"
proof -
  from assms(1) have "errs (update_str_field ''titulo'' 1 200 d) = []"
    and u: "u_titulo u = value_or_none (update_str_field ''titulo'' 1 200 d)"
    by (auto simp: SongUpdate_def Let_def split: if_splits)
  from errs_Nil [OF this(1)] obtain x where x: "update_str_field ''titulo'' 1 200 d = Inr x"
    by blast
  with update_str_field_str [OF assms(2), of 1 200] have "x = Some (strip t)"
    by (auto split: if_splits)
  with x u show ?thesis by (simp add: value_or_none_def)
qed

text \<open>
  What \<^verbatim>\<open>SongUpdate\<close> rejects, always with a validation error: a payload with none of
  the four fields; a title or artist shorter than 1 or longer than 200 or 100 as given; an
  album longer than 200; a year below 1800 or above the current year. An accepted title
  is stored trimmed.
\<close>

theorem update_validation_errors:
  "(dget d ''titulo'' = None \<and> dget d ''artista'' = None \<and> dget d ''album'' = None
      \<and> dget d anio_key = None \<longrightarrow> SongUpdate L d = Inl [NoFieldProvided])
   \<and> (dget d ''titulo'' = Some (PStr t) \<and> length t < 1
        \<longrightarrow> (\<exists>es. SongUpdate L d = Inl es \<and> MinLength ''titulo'' \<in> set es))
   \<and> (dget d ''titulo'' = Some (PStr t) \<and> 200 < length t
        \<longrightarrow> (\<exists>es. SongUpdate L d = Inl es \<and> MaxLength ''titulo'' \<in> set es))
   \<and> (dget d ''artista'' = Some (PStr a) \<and> length a < 1
        \<longrightarrow> (\<exists>es. SongUpdate L d = Inl es \<and> MinLength ''artista'' \<in> set es))
   \<and> (dget d ''artista'' = Some (PStr a) \<and> 100 < length a
        \<longrightarrow> (\<exists>es. SongUpdate L d = Inl es \<and> MaxLength ''artista'' \<in> set es))
   \<and> (dget d ''album'' = Some (PStr al) \<and> 200 < length al
        \<longrightarrow> (\<exists>es. SongUpdate L d = Inl es \<and> MaxLength ''album'' \<in> set es))
   \<and> (dget d anio_key = Some (PInt y) \<and> y < 1800
        \<longrightarrow> (\<exists>es. SongUpdate L d = Inl es \<and> NotGe anio_key \<in> set es))
   \<and> (dget d anio_key = Some (PInt y) \<and> 1800 \<le> y \<and> current_year L < y
        \<longrightarrow> (\<exists>es. SongUpdate L d = Inl es \<and> NotLe anio_key \<in> set es))
   \<and> (SongUpdate L d = Inr u \<and> dget d ''titulo'' = Some (PStr t) \<longrightarrow> u_titulo u = Some (strip t))"
proof -
  have 1: "dget d ''titulo'' = None \<and> dget d ''artista'' = None \<and> dget d ''album'' = None
      \<and> dget d anio_key = None \<longrightarrow> SongUpdate L d = Inl [NoFieldProvided]"
    using SongUpdate_no_fields by blast
  have 2: "dget d ''titulo'' = Some (PStr t) \<and> length t < 1
        \<longrightarrow> (\<exists>es. SongUpdate L d = Inl es \<and> MinLength ''titulo'' \<in> set es)"
    by (intro impI SongUpdate_field_error) (simp add: update_str_field_str)
  have 3: "dget d ''titulo'' = Some (PStr t) \<and> 200 < length t
        \<longrightarrow> (\<exists>es. SongUpdate L d = Inl es \<and> MaxLength ''titulo'' \<in> set es)"
    by (intro impI SongUpdate_field_error) (auto simp: update_str_field_str)
  have 4: "dget d ''artista'' = Some (PStr a) \<and> length a < 1
        \<longrightarrow> (\<exists>es. SongUpdate L d = Inl es \<and> MinLength ''artista'' \<in> set es)"
    by (intro impI SongUpdate_field_error) (simp add: update_str_field_str)
  have 5: "dget d ''artista'' = Some (PStr a) \<and> 100 < length a
        \<longrightarrow> (\<exists>es. SongUpdate L d = Inl es \<and> MaxLength ''artista'' \<in> set es)"
    by (intro impI SongUpdate_field_error) (auto simp: update_str_field_str)
  have 6: "dget d ''album'' = Some (PStr al) \<and> 200 < length al
        \<longrightarrow> (\<exists>es. SongUpdate L d = Inl es \<and> MaxLength ''album'' \<in> set es)"
    by (intro impI SongUpdate_field_error) (simp add: album_field_str)
  have 7: "dget d anio_key = Some (PInt y) \<and> y < 1800
        \<longrightarrow> (\<exists>es. SongUpdate L d = Inl es \<and> NotGe anio_key \<in> set es)"
    by (intro impI SongUpdate_field_error) (simp add: anio_field_int)
  have 8: "dget d anio_key = Some (PInt y) \<and> 1800 \<le> y \<and> current_year L < y
        \<longrightarrow> (\<exists>es. SongUpdate L d = Inl es \<and> NotLe anio_key \<in> set es)"
    by (intro impI SongUpdate_field_error) (simp add: anio_field_int)
  have 9: "SongUpdate L d = Inr u \<and> dget d ''titulo'' = Some (PStr t)
        \<longrightarrow> u_titulo u = Some (strip t)"
    using SongUpdate_titulo by blast
  from 1 2 3 4 5 6 7 8 9 show ?thesis
    by (intro conjI) assumption+
qed

lemma sample_update_facts:
  "dget [] ''titulo'' = None" "dget [] ''artista'' = None" "dget [] ''album'' = None"
  "dget [] anio_key = None"
  "dget [(anio_key, PInt 1799)] anio_key = Some (PInt 1799)"
  "dget [(anio_key, PInt 2027)] anio_key = Some (PInt 2027)"
  "current_year test_lib = 2026"
  by code_simp+

theorem update_validation_errors_witness:
  "SongUpdate test_lib [] = Inl [NoFieldProvided]
   \<and> (\<exists>es. SongUpdate test_lib [(anio_key, PInt 1799)] = Inl es \<and> NotGe anio_key \<in> set es)
   \<and> (\<exists>es. SongUpdate test_lib [(anio_key, PInt 2027)] = Inl es \<and> NotLe anio_key \<in> set es)"
proof -
  from update_validation_errors [where d = "[]" and L = test_lib] sample_update_facts(1-4)
  have 1: "SongUpdate test_lib [] = Inl [NoFieldProvided]" by blast
  from update_validation_errors [where d = "[(anio_key, PInt 1799)]" and L = test_lib and y = 1799]
    sample_update_facts(5)
  have 2: "\<exists>es. SongUpdate test_lib [(anio_key, PInt 1799)] = Inl es \<and> NotGe anio_key \<in> set es"
    by simp
  from update_validation_errors [where d = "[(anio_key, PInt 2027)]" and L = test_lib and y = 2027]
    sample_update_facts(6,7)
  have 3: "\<exists>es. SongUpdate test_lib [(anio_key, PInt 2027)] = Inl es \<and> NotLe anio_key \<in> set es"
    by simp
  from 1 2 3 show ?thesis by (intro conjI) assumption+
qed

end
